theory Spec2Isabelle
  imports Main "HOL-Library.Sublist"
begin

section \<open>Python values\<close>

text \<open>
  The handler of \<^verbatim>\<open>aiohttp_websocket_server_protocol.py\<close> works on the values that
  \<^verbatim>\<open>json.loads\<close> returns (None, booleans, integers, strings, lists, dictionaries with
  string keys) and on the \<^verbatim>\<open>bytes\<close> of binary frames. A dictionary keeps its insertion
  order, so it is an association list. Floating point numbers are left out.
\<close>

type_synonym bytes = "nat list"

datatype pyval =
    PNone
  | PBool bool
  | PInt int
  | PStr string
  | PBytes bytes
  | PList "pyval list"
  | PDict "(string \<times> pyval) list"

text \<open>Truthiness, as \<^verbatim>\<open>if data:\<close> and \<^verbatim>\<open>args and args[0]\<close> test it.\<close>

fun truthy :: "pyval \<Rightarrow> bool" where
  "truthy PNone = False"
| "truthy (PBool b) = b"
| "truthy (PInt i) = (i \<noteq> 0)"
| "truthy (PStr s) = (s \<noteq> [])"
| "truthy (PBytes b) = (b \<noteq> [])"
| "truthy (PList xs) = (xs \<noteq> [])"
| "truthy (PDict kvs) = (kvs \<noteq> [])"

text \<open>
  Keys of a Python dictionary: lists and dictionaries are unhashable (storing under them
  raises TypeError), and \<^verbatim>\<open>True\<close>/\<^verbatim>\<open>False\<close> are the same keys as 1/0.
\<close>

datatype pykey = KNone | KInt int | KStr string | KBytes bytes

fun to_key :: "pyval \<Rightarrow> pykey option" where
  "to_key PNone = Some KNone"
| "to_key (PBool b) = Some (KInt (if b then 1 else 0))"
| "to_key (PInt i) = Some (KInt i)"
| "to_key (PStr s) = Some (KStr s)"
| "to_key (PBytes b) = Some (KBytes b)"
| "to_key (PList xs) = None"
| "to_key (PDict kvs) = None"

text \<open>\<^verbatim>\<open>key in text\<close> on two strings: a substring test.\<close>

fun str_contains :: "string \<Rightarrow> string \<Rightarrow> bool" where
  "str_contains key [] = (key = [])"
| "str_contains key (c # cs) = (prefix key (c # cs) \<or> str_contains key cs)"

subsection \<open>json.dumps with ensure_ascii=False\<close>

text \<open>
  \<^verbatim>\<open>json.dumps\<close> on the values above, with Python's default separators
  (\<^verbatim>\<open>", "\<close> and \<^verbatim>\<open>": "\<close>). \<^verbatim>\<open>bytes\<close> are not serializable: the result is
  \<open>None\<close>, standing for the TypeError.
\<close>

definition hex_digit :: "nat \<Rightarrow> char" where
  "hex_digit n = ''0123456789abcdef'' ! (n mod 16)"

definition escape_char :: "char \<Rightarrow> string" where
  "escape_char c =
     (if c = CHR 0x22 then [CHR 0x5C, CHR 0x22]
      else if c = CHR 0x5C then [CHR 0x5C, CHR 0x5C]
      else if c = CHR 0x0A then [CHR 0x5C, CHR ''n'']
      else if c = CHR 0x0D then [CHR 0x5C, CHR ''r'']
      else if c = CHR 0x09 then [CHR 0x5C, CHR ''t'']
      else if c = CHR 0x08 then [CHR 0x5C, CHR ''b'']
      else if c = CHR 0x0C then [CHR 0x5C, CHR ''f'']
      else if (of_char c :: nat) < 32
        then [CHR 0x5C, CHR ''u'', CHR ''0'', CHR ''0'',
              hex_digit (of_char c div 16), hex_digit (of_char c mod 16)]
      else [c])"

definition json_str :: "string \<Rightarrow> string" where
  "json_str s = CHR 0x22 # concat (map escape_char s) @ [CHR 0x22]"

fun show_nat :: "nat \<Rightarrow> string" where
  "show_nat n =
     (if n < 10 then [''0123456789'' ! n]
      else show_nat (n div 10) @ [''0123456789'' ! (n mod 10)])"

declare show_nat.simps [simp del]

definition show_int :: "int \<Rightarrow> string" where
  "show_int i = (if i < 0 then CHR ''-'' # show_nat (nat (- i)) else show_nat (nat i))"

fun json_dumps :: "pyval \<Rightarrow> string option"
  and dumps_list :: "pyval list \<Rightarrow> string option"
  and dumps_items :: "(string \<times> pyval) list \<Rightarrow> string option"
where
  "json_dumps PNone = Some ''null''"
| "json_dumps (PBool b) = Some (if b then ''true'' else ''false'')"
| "json_dumps (PInt i) = Some (show_int i)"
| "json_dumps (PStr s) = Some (json_str s)"
| "json_dumps (PBytes b) = None"
| "json_dumps (PList xs) =
     (case dumps_list xs of None \<Rightarrow> None | Some t \<Rightarrow> Some (''['' @ t @ '']''))"
| "json_dumps (PDict kvs) =
     (case dumps_items kvs of None \<Rightarrow> None | Some t \<Rightarrow> Some (''{'' @ t @ ''}''))"
| "dumps_list [] = Some []"
| "dumps_list (x # xs) =
     (case json_dumps x of
        None \<Rightarrow> None
      | Some t \<Rightarrow>
          (case dumps_list xs of
             None \<Rightarrow> None
           | Some r \<Rightarrow> Some (if xs = [] then t else t @ '', '' @ r)))"
| "dumps_items [] = Some []"
| "dumps_items (kv # kvs) =
     (case json_dumps (snd kv) of
        None \<Rightarrow> None
      | Some t \<Rightarrow>
          (case dumps_items kvs of
             None \<Rightarrow> None
           | Some r \<Rightarrow>
               Some (if kvs = [] then json_str (fst kv) @ '': '' @ t
                     else json_str (fst kv) @ '': '' @ t @ '', '' @ r)))"

section \<open>Exceptions, effects and the state\<close>

text \<open>
  The exceptions the handler can meet. \<open>UserException\<close> is any \<^verbatim>\<open>Exception\<close> raised by a
  registered RPC method, named by a label; an exception that is not an \<^verbatim>\<open>Exception\<close>
  (a cancellation, an interrupt) is left out.
\<close>

datatype py_exc =
    KeyError
  | TypeError
  | AttributeError
  | IndexError
  | JSONDecodeError
  | InvalidStateError
  | UserException string

text \<open>
  What the handler does to the outside, in the order it does it: frames written to a
  client's websocket (named by the client id), the calls into the publish manager, and the
  calls into the lifecycle collaborators (timer facility, runner, running future).
\<close>

datatype effect =
    SendStr string string
  | SendBytes string bytes
  | RegisterAttachment string
  | UnregisterAttachment string
  | FreeAttachments "string list"
  | CloseWs string nat string
  | CancelTask nat
  | ScheduleTask nat nat
  | RunnerCleanup
  | SetRunningResult

datatype error_code =
    AUTHENTICATION_ERROR
  | METHOD_NOT_FOUND
  | EXCEPTION_ERROR
  | RESULT_SERIALIZE_ERROR

text \<open>
  Modelled from the spec: the publish manager of \<^verbatim>\<open>wslink.publish\<close>, whose source is
  missing. The spec describes a mapping from placeholder key to bytes with a
  per-key integer reference count; \<^verbatim>\<open>registerAttachment\<close> and \<^verbatim>\<open>unregisterAttachment\<close>
  move the count up and down, \<^verbatim>\<open>freeAttachments(keys)\<close> removes the keys whose count is
  zero and keeps the others.
\<close>

record publish_manager =
  attachmentMap :: "(string \<times> bytes) list"
  attachmentRefCounts :: "string \<Rightarrow> int"

definition registerAttachment :: "string \<Rightarrow> publish_manager \<Rightarrow> publish_manager" where
  "registerAttachment key pm =
     pm\<lparr>attachmentRefCounts := (attachmentRefCounts pm)(key := attachmentRefCounts pm key + 1)\<rparr>"

definition unregisterAttachment :: "string \<Rightarrow> publish_manager \<Rightarrow> publish_manager" where
  "unregisterAttachment key pm =
     pm\<lparr>attachmentRefCounts := (attachmentRefCounts pm)(key := attachmentRefCounts pm key - 1)\<rparr>"

definition freeAttachments :: "string list \<Rightarrow> publish_manager \<Rightarrow> publish_manager" where
  "freeAttachments keys pm =
     pm\<lparr>attachmentMap :=
          filter (\<lambda>kv. \<not> (fst kv \<in> set keys \<and> attachmentRefCounts pm (fst kv) = 0))
                 (attachmentMap pm)\<rparr>"

text \<open>
  A registered RPC method, already bound to its protocol object (the handler inserts the
  object at position 0 of \<open>args\<close>). It gets the positional and keyword arguments, may use
  the publish manager (\<^verbatim>\<open>addAttachment\<close>), and returns a value or raises.
\<close>

type_synonym rpc_method =
  "pyval list \<Rightarrow> (string \<times> pyval) list \<Rightarrow> publish_manager \<Rightarrow> (py_exc + pyval) \<times> publish_manager"

text \<open>
  What the module takes from outside: \<^verbatim>\<open>json.loads\<close> (\<open>None\<close> when the text is
  not well-formed JSON), the error codes of \<^verbatim>\<open>wslink.publish\<close>, \<^verbatim>\<open>repr\<close> and
  \<^verbatim>\<open>traceback.format_exc\<close> on an exception, and the configured timeout.
\<close>

record env =
  json_loads :: "string \<Rightarrow> pyval option"
  code_of :: "error_code \<Rightarrow> int"
  repr_exc :: "py_exc \<Rightarrow> string"
  format_exc :: "py_exc \<Rightarrow> string"
  timeout :: nat

text \<open>
  The state: the fields of \<^verbatim>\<open>WslinkHandler\<close>, the publish manager, the application state
  (\<^verbatim>\<open>app["state"]\<close>), the timer facility and the log of effects. \<open>serverProtocol\<close> is
  \<open>None\<close> when no protocol object is set, and otherwise holds the \<^verbatim>\<open>secret\<close> attribute
  of the protocol object (a string, as the spec has it);
  \<open>handler_secret\<close> is the attribute \<^verbatim>\<open>setSecret\<close> writes on the handler itself.
  \<open>connections\<close> lists the client ids of the connection table in insertion order; a
  websocket is named by its client id.
\<close>

record world =
  serverProtocol :: "string option"
  handler_secret :: "string option"
  functionMap :: "string \<rightharpoonup> rpc_method"
  attachmentsReceived :: "pykey \<rightharpoonup> bytes"
  attachmentsRecvQueue :: "pyval list"
  connections :: "string list"
  publishManager :: publish_manager
  shutdown_task :: "nat option"
  pending_tasks :: "nat list"
  next_task :: nat
  running :: bool
  effects :: "effect list"

subsection \<open>Computations that may raise\<close>

type_synonym 'a prog = "world \<Rightarrow> (py_exc + 'a) \<times> world"

definition ret :: "'a \<Rightarrow> 'a prog" where
  "ret x w = (Inr x, w)"

definition raise :: "py_exc \<Rightarrow> 'a prog" where
  "raise e w = (Inl e, w)"

definition bnd :: "'a prog \<Rightarrow> ('a \<Rightarrow> 'b prog) \<Rightarrow> 'b prog" where
  "bnd m f w = (case m w of (Inl e, w') \<Rightarrow> (Inl e, w') | (Inr x, w') \<Rightarrow> f x w')"

definition catch :: "'a prog \<Rightarrow> (py_exc \<Rightarrow> 'a prog) \<Rightarrow> 'a prog" where
  "catch m h w = (case m w of (Inl e, w') \<Rightarrow> h e w' | (Inr x, w') \<Rightarrow> (Inr x, w'))"

definition emit :: "effect \<Rightarrow> unit prog" where
  "emit e w = (Inr (), w\<lparr>effects := effects w @ [e]\<rparr>)"

fun for_each :: "'a list \<Rightarrow> ('a \<Rightarrow> unit prog) \<Rightarrow> unit prog" where
  "for_each [] body = ret ()"
| "for_each (x # xs) body = bnd (body x) (\<lambda>_. for_each xs body)"

section \<open>Sending\<close>

text \<open>
  \<^verbatim>\<open>[self.connections[client_id]] if client_id else [self.connections[c] for c in
  self.connections]\<close>: a missing client id is a KeyError.
\<close>

definition websockets_for :: "string \<Rightarrow> string list prog" where
  "websockets_for client_id w =
     (if client_id \<noteq> []
      then (if client_id \<in> set (connections w) then (Inr [client_id], w) else (Inl KeyError, w))
      else (Inr (connections w), w))"

definition dumps :: "pyval \<Rightarrow> string prog" where
  "dumps v = (case json_dumps v of None \<Rightarrow> raise TypeError | Some t \<Rightarrow> ret t)"

definition error_object :: "int \<Rightarrow> string \<Rightarrow> pyval \<Rightarrow> pyval" where
  "error_object code message data =
     PDict ([(''code'', PInt code), (''message'', PStr message)]
            @ (if truthy data then [(''data'', data)] else []))"

definition error_wrapper :: "pyval \<Rightarrow> int \<Rightarrow> string \<Rightarrow> pyval \<Rightarrow> pyval" where
  "error_wrapper rpcid code message data =
     PDict [(''wslink'', PStr ''1.0''), (''id'', rpcid),
            (''error'', error_object code message data)]"

definition sendWrappedError :: "pyval \<Rightarrow> int \<Rightarrow> string \<Rightarrow> pyval \<Rightarrow> string \<Rightarrow> unit prog" where
  "sendWrappedError rpcid code message data client_id =
     bnd (dumps (error_wrapper rpcid code message data)) (\<lambda>encMsg.
     bnd (websockets_for client_id) (\<lambda>websockets.
     for_each websockets (\<lambda>ws. emit (SendStr ws encMsg))))"


text \<open>
  A call into the publish manager: it changes the manager's state and is logged, so that
  its place among the frames is visible.
\<close>

definition pm_call :: "(publish_manager \<Rightarrow> publish_manager) \<Rightarrow> effect \<Rightarrow> unit prog" where
  "pm_call f e w =
     (Inr (), w\<lparr>publishManager := f (publishManager w), effects := effects w @ [e]\<rparr>)"

definition getAttachmentMap :: "(string \<times> bytes) list prog" where
  "getAttachmentMap w = (Inr (attachmentMap (publishManager w)), w)"

definition attachment_header :: "string \<Rightarrow> pyval" where
  "attachment_header key =
     PDict [(''wslink'', PStr ''1.0''), (''method'', PStr ''wslink.binary.attachment''),
            (''args'', PList [PStr key])]"

definition result_wrapper :: "pyval \<Rightarrow> pyval \<Rightarrow> pyval" where
  "result_wrapper rpcid content =
     PDict [(''wslink'', PStr ''1.0''), (''id'', rpcid), (''result'', content)]"

text \<open>
  The loop \<^verbatim>\<open>for key in attachments\<close> of \<^verbatim>\<open>sendWrappedMessage\<close>, over the items of the
  attachment map in the map's order; it returns \<^verbatim>\<open>found_keys\<close>.
\<close>

fun send_attachments ::
  "string list \<Rightarrow> string \<Rightarrow> (string \<times> bytes) list \<Rightarrow> string list \<Rightarrow> string list prog"
where
  "send_attachments websockets encMsg [] found_keys = ret found_keys"
| "send_attachments websockets encMsg (item # rest) found_keys =
     (if str_contains (fst item) encMsg
      then
        bnd (pm_call (registerAttachment (fst item)) (RegisterAttachment (fst item))) (\<lambda>_.
        bnd (dumps (attachment_header (fst item))) (\<lambda>json_header.
        bnd (for_each websockets (\<lambda>ws.
               bnd (emit (SendStr ws json_header)) (\<lambda>_. emit (SendBytes ws (snd item))))) (\<lambda>_.
        bnd (pm_call (unregisterAttachment (fst item)) (UnregisterAttachment (fst item))) (\<lambda>_.
        send_attachments websockets encMsg rest
          (if fst item \<in> set found_keys then found_keys else found_keys @ [fst item])))))
      else send_attachments websockets encMsg rest found_keys)"

definition sendWrappedMessage :: "env \<Rightarrow> pyval \<Rightarrow> pyval \<Rightarrow> pyval \<Rightarrow> string \<Rightarrow> unit prog" where
  "sendWrappedMessage en rpcid content method client_id =
     (case json_dumps (result_wrapper rpcid content) of
        None \<Rightarrow>
          sendWrappedError rpcid (code_of en RESULT_SERIALIZE_ERROR)
            ''Method result cannot be serialized'' method client_id
      | Some encMsg \<Rightarrow>
          bnd (websockets_for client_id) (\<lambda>websockets.
          bnd getAttachmentMap (\<lambda>attachments.
          bnd (if attachments \<noteq> []
               then bnd (send_attachments websockets encMsg attachments []) (\<lambda>found_keys.
                      pm_call (freeAttachments found_keys) (FreeAttachments found_keys))
               else ret ()) (\<lambda>_.
          for_each websockets (\<lambda>ws. emit (SendStr ws encMsg))))))"

section \<open>System messages\<close>

text \<open>\<^verbatim>\<open>str.split(sep)\<close> for a separator of one character.\<close>

fun split_on :: "char \<Rightarrow> string \<Rightarrow> string list" where
  "split_on sep [] = [[]]"
| "split_on sep (c # cs) =
     (if c = sep then [] # split_on sep cs
      else (case split_on sep cs of [] \<Rightarrow> [[c]] | p # ps \<Rightarrow> (c # p) # ps))"

text \<open>
  The condition of the hello branch, with Python's short-circuit evaluation: the secret of
  the protocol object is read only when every earlier conjunct holds, and reading it from
  a missing protocol object is an AttributeError.
\<close>

definition hello_check :: "pyval list \<Rightarrow> bool prog" where
  "hello_check args w =
     (case args of
        [] \<Rightarrow> (Inr False, w)
      | a # _ \<Rightarrow>
          (if \<not> truthy a then (Inr False, w)
           else (case a of
                   PDict kvs \<Rightarrow>
                     (case map_of kvs ''secret'' of
                        None \<Rightarrow> (Inr False, w)
                      | Some v \<Rightarrow>
                          (case serverProtocol w of
                             None \<Rightarrow> (Inl AttributeError, w)
                           | Some s \<Rightarrow> (Inr (v = PStr s), w)))
                 | _ \<Rightarrow> (Inr False, w))))"

definition is_system_id :: "string \<Rightarrow> bool" where
  "is_system_id rid = (case split_on CHR '':'' rid of [] \<Rightarrow> False | p # _ \<Rightarrow> p = ''system'')"

definition handleSystemMessage :: "env \<Rightarrow> pyval \<Rightarrow> pyval \<Rightarrow> pyval list \<Rightarrow> string \<Rightarrow> bool prog" where
  "handleSystemMessage en rpcid methodName args client_id =
     (case rpcid of
        PStr rid \<Rightarrow>
          (if is_system_id rid
           then
             bnd (if methodName = PStr ''wslink.hello''
                  then
                    bnd (hello_check args) (\<lambda>ok.
                      if ok
                      then sendWrappedMessage en rpcid
                             (PDict [(''clientID'', PStr (''c'' @ client_id))]) (PStr [])
                             client_id
                      else sendWrappedError rpcid (code_of en AUTHENTICATION_ERROR)
                             ''Authentication failed'' PNone client_id)
                  else sendWrappedError rpcid (code_of en METHOD_NOT_FOUND)
                         ''Unknown system method called'' PNone client_id)
                 (\<lambda>_. ret True)
           else ret False)
      | PBytes b \<Rightarrow> raise TypeError
      | _ \<Rightarrow> raise AttributeError)"

definition setSecret :: "string \<Rightarrow> unit prog" where
  "setSecret newSecret w = (Inr (), w\<lparr>handler_secret := Some newSecret\<rparr>)"

section \<open>Inbound attachments\<close>

text \<open>
  \<^verbatim>\<open>re.match(r"^wslink_bin\d+$", o)\<close>: the prefix, one or more decimal digits, and the end
  of the string; Python's \<^verbatim>\<open>$\<close> also matches before one final newline.
\<close>

definition is_digit :: "char \<Rightarrow> bool" where
  "is_digit c = ((48::nat) \<le> of_char c \<and> (of_char c :: nat) \<le> 57)"

definition is_placeholder :: "string \<Rightarrow> bool" where
  "is_placeholder s =
     (take 10 s = ''wslink_bin'' \<and> takeWhile is_digit (drop 10 s) \<noteq> [] \<and>
      (dropWhile is_digit (drop 10 s) = [] \<or> dropWhile is_digit (drop 10 s) = [CHR 0x0A]))"

text \<open>
  The nested function \<^verbatim>\<open>findAttachments\<close> of \<^verbatim>\<open>onMessage\<close>. It reads and shrinks
  \<^verbatim>\<open>self.attachmentsReceived\<close>, which is threaded through the traversal: list elements
  and dictionary values are visited in order.
\<close>

fun findAttachments :: "pyval \<Rightarrow> (pykey \<rightharpoonup> bytes) \<Rightarrow> pyval \<times> (pykey \<rightharpoonup> bytes)"
  and findAttachments_list ::
    "pyval list \<Rightarrow> (pykey \<rightharpoonup> bytes) \<Rightarrow> pyval list \<times> (pykey \<rightharpoonup> bytes)"
  and findAttachments_items ::
    "(string \<times> pyval) list \<Rightarrow> (pykey \<rightharpoonup> bytes) \<Rightarrow> (string \<times> pyval) list \<times> (pykey \<rightharpoonup> bytes)"
where
  "findAttachments (PStr s) recv =
     (if is_placeholder s
      then (case recv (KStr s) of
              Some attachment \<Rightarrow> (PBytes attachment, recv(KStr s := None))
            | None \<Rightarrow> (PStr s, recv))
      else (PStr s, recv))"
| "findAttachments (PList xs) recv =
     (case findAttachments_list xs recv of (ys, recv') \<Rightarrow> (PList ys, recv'))"
| "findAttachments (PDict kvs) recv =
     (case findAttachments_items kvs recv of (kvs', recv') \<Rightarrow> (PDict kvs', recv'))"
| "findAttachments PNone recv = (PNone, recv)"
| "findAttachments (PBool b) recv = (PBool b, recv)"
| "findAttachments (PInt i) recv = (PInt i, recv)"
| "findAttachments (PBytes b) recv = (PBytes b, recv)"
| "findAttachments_list [] recv = ([], recv)"
| "findAttachments_list (v # vs) recv =
     (case findAttachments v recv of
        (v', recv') \<Rightarrow>
          (case findAttachments_list vs recv' of (vs', recv'') \<Rightarrow> (v' # vs', recv'')))"
| "findAttachments_items [] recv = ([], recv)"
| "findAttachments_items (kv # kvs) recv =
     (case findAttachments (snd kv) recv of
        (v', recv') \<Rightarrow>
          (case findAttachments_items kvs recv' of
             (kvs', recv'') \<Rightarrow> ((fst kv, v') # kvs', recv'')))"

definition find_attachments :: "pyval \<Rightarrow> pyval prog" where
  "find_attachments v w =
     (case findAttachments v (attachmentsReceived w) of
        (v', recv') \<Rightarrow> (Inr v', w\<lparr>attachmentsReceived := recv'\<rparr>))"


section \<open>Inbound messages\<close>

text \<open>
  A frame of the websocket: binary, or text. The payload of a text frame is a string; the
  branch of \<^verbatim>\<open>onMessage\<close> that decodes a payload of type \<^verbatim>\<open>bytes\<close> is left out.
\<close>

datatype ws_msg = Binary bytes | Text string

definition pop_queue :: "pyval prog" where
  "pop_queue w =
     (case attachmentsRecvQueue w of
        [] \<Rightarrow> (Inl IndexError, w)
      | key # rest \<Rightarrow> (Inr key, w\<lparr>attachmentsRecvQueue := rest\<rparr>))"

definition store_attachment :: "pyval \<Rightarrow> bytes \<Rightarrow> unit prog" where
  "store_attachment key payload w =
     (case to_key key of
        None \<Rightarrow> (Inl TypeError, w)
      | Some k \<Rightarrow> (Inr (), w\<lparr>attachmentsReceived := (attachmentsReceived w)(k \<mapsto> payload)\<rparr>))"

text \<open>The binary branch: \<^verbatim>\<open>try: pop, store; except: pass\<close>.\<close>

definition on_binary :: "bytes \<Rightarrow> unit prog" where
  "on_binary payload =
     catch (bnd pop_queue (\<lambda>key. store_attachment key payload)) (\<lambda>_. ret ())"

text \<open>\<^verbatim>\<open>key in v\<close>, \<^verbatim>\<open>v.get(key, default)\<close> and \<^verbatim>\<open>v[key]\<close> for a string key.\<close>

definition py_in :: "string \<Rightarrow> pyval \<Rightarrow> bool prog" where
  "py_in key v =
     (case v of
        PDict kvs \<Rightarrow> ret (key \<in> set (map fst kvs))
      | PList xs \<Rightarrow> ret (PStr key \<in> set xs)
      | PStr s \<Rightarrow> ret (str_contains key s)
      | _ \<Rightarrow> raise TypeError)"

definition py_get :: "pyval \<Rightarrow> string \<Rightarrow> pyval \<Rightarrow> pyval prog" where
  "py_get v key dflt =
     (case v of
        PDict kvs \<Rightarrow> ret (case map_of kvs key of None \<Rightarrow> dflt | Some x \<Rightarrow> x)
      | _ \<Rightarrow> raise AttributeError)"

definition py_getitem :: "pyval \<Rightarrow> string \<Rightarrow> pyval prog" where
  "py_getitem v key =
     (case v of
        PDict kvs \<Rightarrow> (case map_of kvs key of None \<Rightarrow> raise KeyError | Some x \<Rightarrow> ret x)
      | _ \<Rightarrow> raise TypeError)"

definition extend_queue :: "pyval list \<Rightarrow> unit prog" where
  "extend_queue keys w = (Inr (), w\<lparr>attachmentsRecvQueue := attachmentsRecvQueue w @ keys\<rparr>)"

text \<open>The branch for a message without \<^verbatim>\<open>id\<close>: an attachment header, or nothing.\<close>

definition on_no_id :: "pyval \<Rightarrow> unit prog" where
  "on_no_id rpc =
     bnd (py_get rpc ''method'' PNone) (\<lambda>m.
       if m = PStr ''wslink.binary.attachment''
       then bnd (py_get rpc ''args'' (PList [])) (\<lambda>keys.
              case keys of PList ks \<Rightarrow> extend_queue ks | _ \<Rightarrow> ret ())
       else ret ())"

definition rpc_args :: "pyval \<Rightarrow> pyval list prog" where
  "rpc_args rpc =
     bnd (py_in ''args'' rpc) (\<lambda>present.
       if present
       then bnd (py_getitem rpc ''args'') (\<lambda>a. case a of PList xs \<Rightarrow> ret xs | _ \<Rightarrow> ret [])
       else ret [])"

definition rpc_kwargs :: "pyval \<Rightarrow> (string \<times> pyval) list prog" where
  "rpc_kwargs rpc =
     bnd (py_in ''kwargs'' rpc) (\<lambda>present.
       if present
       then bnd (py_getitem rpc ''kwargs'') (\<lambda>a. case a of PDict kvs \<Rightarrow> ret kvs | _ \<Rightarrow> ret [])
       else ret [])"

text \<open>
  \<^verbatim>\<open>methodName in self.functionMap\<close>: the keys of the Function Map are URI strings; a list
  or a dictionary is unhashable, and looking it up raises TypeError.
\<close>

definition lookup_method :: "pyval \<Rightarrow> rpc_method option prog" where
  "lookup_method methodName w =
     (case methodName of
        PStr m \<Rightarrow> (Inr (functionMap w m), w)
      | PList xs \<Rightarrow> (Inl TypeError, w)
      | PDict kvs \<Rightarrow> (Inl TypeError, w)
      | _ \<Rightarrow> (Inr None, w))"

definition call_method :: "rpc_method \<Rightarrow> pyval list \<Rightarrow> (string \<times> pyval) list \<Rightarrow> pyval prog" where
  "call_method func args kwargs w =
     (case func args kwargs (publishManager w) of
        (r, pm') \<Rightarrow> (r, w\<lparr>publishManager := pm'\<rparr>))"

definition exception_data :: "env \<Rightarrow> pyval \<Rightarrow> py_exc \<Rightarrow> pyval" where
  "exception_data en methodName e =
     PDict [(''method'', methodName), (''exception'', PStr (repr_exc en e)),
            (''trace'', PStr (format_exc en e))]"

text \<open>
  The body of \<^verbatim>\<open>onMessage\<close> from \<^verbatim>\<open>obj, func = self.functionMap[methodName]\<close> on: the
  two nested \<^verbatim>\<open>try\<close> blocks. \<open>find_attachments\<close> maps a list to a list and a dictionary
  to a dictionary, so the last case is never taken.
\<close>

definition invoke ::
  "env \<Rightarrow> rpc_method \<Rightarrow> pyval \<Rightarrow> pyval \<Rightarrow> pyval list \<Rightarrow> (string \<times> pyval) list \<Rightarrow> string
   \<Rightarrow> unit prog"
where
  "invoke en func rpcid methodName args kwargs client_id =
     catch
       (bnd (find_attachments (PList args)) (\<lambda>args'.
        bnd (find_attachments (PDict kwargs)) (\<lambda>kwargs'.
          case (args', kwargs') of
            (PList a, PDict k) \<Rightarrow>
              catch
                (bnd (call_method func a k) (\<lambda>results.
                   sendWrappedMessage en rpcid results methodName client_id))
                (\<lambda>e_inst.
                   sendWrappedError rpcid (code_of en EXCEPTION_ERROR) ''Exception raised''
                     (exception_data en methodName e_inst) client_id)
          | _ \<Rightarrow> raise AttributeError)))
       (\<lambda>e. sendWrappedError rpcid (code_of en EXCEPTION_ERROR) ''Exception raised''
               (exception_data en methodName e) client_id)"

text \<open>
  \<^verbatim>\<open>onMessage\<close> from the lookup in the Function Map on, and from the check for system
  messages on, once the fields of the request are read.
\<close>

definition call_rpc ::
  "env \<Rightarrow> pyval \<Rightarrow> pyval \<Rightarrow> pyval list \<Rightarrow> (string \<times> pyval) list \<Rightarrow> string \<Rightarrow> unit prog"
where
  "call_rpc en rpcid methodName args kwargs client_id =
     bnd (lookup_method methodName) (\<lambda>entry.
       case entry of
         None \<Rightarrow>
           sendWrappedError rpcid (code_of en METHOD_NOT_FOUND)
             ''Unregistered method called'' methodName client_id
       | Some func \<Rightarrow> invoke en func rpcid methodName args kwargs client_id)"

definition dispatch ::
  "env \<Rightarrow> pyval \<Rightarrow> pyval \<Rightarrow> pyval list \<Rightarrow> (string \<times> pyval) list \<Rightarrow> string \<Rightarrow> unit prog"
where
  "dispatch en rpcid methodName args kwargs client_id =
     bnd (handleSystemMessage en rpcid methodName args client_id) (\<lambda>handled.
       if handled then ret ()
       else call_rpc en rpcid methodName args kwargs client_id)"

text \<open>
  The branch for a message with \<^verbatim>\<open>id\<close>: the fields \<^verbatim>\<open>wslink\<close>, \<^verbatim>\<open>id\<close> and
  \<^verbatim>\<open>method\<close> are read without a check (a missing one is a KeyError), \<^verbatim>\<open>args\<close> and
  \<^verbatim>\<open>kwargs\<close> default to empty.
\<close>

definition on_request :: "env \<Rightarrow> pyval \<Rightarrow> string \<Rightarrow> unit prog" where
  "on_request en rpc client_id =
     bnd (py_getitem rpc ''wslink'') (\<lambda>version.
     bnd (py_getitem rpc ''id'') (\<lambda>rpcid.
     bnd (py_getitem rpc ''method'') (\<lambda>methodName.
     bnd (rpc_args rpc) (\<lambda>args.
     bnd (rpc_kwargs rpc) (\<lambda>kwargs.
     dispatch en rpcid methodName args kwargs client_id)))))"

definition onMessage :: "env \<Rightarrow> ws_msg \<Rightarrow> string \<Rightarrow> unit prog" where
  "onMessage en msg client_id =
     (case msg of
        Binary payload \<Rightarrow> on_binary payload
      | Text payload \<Rightarrow>
          (case json_loads en payload of
             None \<Rightarrow> raise JSONDecodeError
           | Some rpc \<Rightarrow>
               bnd (py_in ''id'' rpc) (\<lambda>present.
                 if \<not> present then on_no_id rpc else on_request en rpc client_id)))"

section \<open>Connections and the idle shutdown\<close>

text \<open>
  Modelled from the spec: the timer facility \<^verbatim>\<open>schedule_coroutine\<close> of the package,
  whose source is missing. The spec gives
  \<^verbatim>\<open>scheduleCoroutine(delay, callable, *args) -> handle\<close> with \<^verbatim>\<open>handle.cancel()\<close>, and a
  cancelled task does not fire. Handles are numbers; \<open>pending_tasks\<close> holds the tasks
  that are scheduled and neither cancelled nor fired.
\<close>

definition schedule_shutdown :: "env \<Rightarrow> unit prog" where
  "schedule_shutdown en w =
     (Inr (), w\<lparr>shutdown_task := Some (next_task w),
                pending_tasks := pending_tasks w @ [next_task w],
                next_task := Suc (next_task w),
                effects := effects w @ [ScheduleTask (next_task w) (timeout en)]\<rparr>)"

definition cancel_task :: "nat \<Rightarrow> unit prog" where
  "cancel_task t w =
     (Inr (), w\<lparr>pending_tasks := removeAll t (pending_tasks w),
                effects := effects w @ [CancelTask t]\<rparr>)"

text \<open>
  \<^verbatim>\<open>handleWsRequest\<close> up to the read loop: the new client id enters the connection table
  and a pending shutdown task is cancelled. \<^verbatim>\<open>onConnect\<close> builds the Function Map by
  reflection; the map is taken as given in the state.
\<close>

definition ws_connect :: "string \<Rightarrow> unit prog" where
  "ws_connect client_id =
     bnd (\<lambda>w. (Inr (), w\<lparr>connections :=
                 (if client_id \<in> set (connections w) then connections w
                  else connections w @ [client_id])\<rparr>)) (\<lambda>_.
     bnd (\<lambda>w. (Inr (shutdown_task w), w)) (\<lambda>task.
       case task of
         None \<Rightarrow> ret ()
       | Some t \<Rightarrow> bnd (cancel_task t) (\<lambda>_. (\<lambda>w. (Inr (), w\<lparr>shutdown_task := None\<rparr>)))))"

text \<open>
  \<^verbatim>\<open>handleWsRequest\<close> after the read loop. \<^verbatim>\<open>onClose\<close> takes the handler off the
  publish manager's list of protocols, which is not part of the state.
\<close>

definition ws_disconnect :: "env \<Rightarrow> string \<Rightarrow> unit prog" where
  "ws_disconnect en client_id =
     bnd (\<lambda>w. if client_id \<in> set (connections w)
              then (Inr (), w\<lparr>connections := removeAll client_id (connections w)\<rparr>)
              else (Inl KeyError, w)) (\<lambda>_.
     bnd (\<lambda>w. (Inr (connections w), w)) (\<lambda>cs.
       if cs = [] then schedule_shutdown en else ret ()))"

text \<open>
  \<^verbatim>\<open>handleWsRequest\<close> for the client id drawn by \<^verbatim>\<open>uuid4\<close> and the frames the client
  sends until it closes.
\<close>

definition handleWsRequest :: "env \<Rightarrow> string \<Rightarrow> ws_msg list \<Rightarrow> unit prog" where
  "handleWsRequest en client_id msgs =
     bnd (ws_connect client_id) (\<lambda>_.
     bnd (for_each msgs (\<lambda>msg. onMessage en msg client_id)) (\<lambda>_.
     ws_disconnect en client_id))"

definition disconnectClients :: "unit prog" where
  "disconnectClients =
     bnd (\<lambda>w. (Inr (connections w), w)) (\<lambda>keys.
       for_each keys (\<lambda>client_id. emit (CloseWs client_id 1001 ''Server shutdown'')))"

text \<open>\<^verbatim>\<open>running.set_result(True)\<close>: a future that is already done raises.\<close>

definition set_running_result :: "unit prog" where
  "set_running_result w =
     (if running w then (Inl InvalidStateError, w)
      else (Inr (), w\<lparr>running := True, effects := effects w @ [SetRunningResult]\<rparr>))"

definition stop_server :: "unit prog" where
  "stop_server =
     bnd disconnectClients (\<lambda>_.
     bnd (emit RunnerCleanup) (\<lambda>_.
     set_running_result))"

text \<open>The timer fires a task that is still pending.\<close>

definition fire_task :: "nat \<Rightarrow> unit prog" where
  "fire_task t w =
     (if t \<in> set (pending_tasks w)
      then stop_server (w\<lparr>pending_tasks := removeAll t (pending_tasks w)\<rparr>)
      else (Inr (), w))"

section \<open>Notions used to state the properties\<close>

text \<open>The JSON text of a serializable value.\<close>

definition wire :: "pyval \<Rightarrow> string" where
  "wire v = (case json_dumps v of Some t \<Rightarrow> t | None \<Rightarrow> [])"

text \<open>A member of a JSON object, \<open>None\<close> when it is absent.\<close>

definition member :: "string \<Rightarrow> pyval \<Rightarrow> pyval option" where
  "member key v = (case v of PDict kvs \<Rightarrow> map_of kvs key | _ \<Rightarrow> None)"

text \<open>
  The traffic for one attachment on the websocket of one client, and the items of the
  attachment map whose key occurs in a text.
\<close>

definition attachment_frames :: "string \<Rightarrow> string \<times> bytes \<Rightarrow> effect list" where
  "attachment_frames client_id item =
     [RegisterAttachment (fst item),
      SendStr client_id (wire (attachment_header (fst item))),
      SendBytes client_id (snd item),
      UnregisterAttachment (fst item)]"

definition found_items :: "string \<Rightarrow> (string \<times> bytes) list \<Rightarrow> (string \<times> bytes) list" where
  "found_items encMsg items = filter (\<lambda>item. str_contains (fst item) encMsg) items"

text \<open>
  The keys \<^verbatim>\<open>found_keys\<close> collects (each once, in the order met), and everything
  \<^verbatim>\<open>sendWrappedMessage\<close> does for the attachments of one text on one websocket.
\<close>

definition add_key :: "string list \<Rightarrow> string \<Rightarrow> string list" where
  "add_key acc k = (if k \<in> set acc then acc else acc @ [k])"

definition found_keys :: "string \<Rightarrow> (string \<times> bytes) list \<Rightarrow> string list" where
  "found_keys encMsg items = foldl add_key [] (map fst (found_items encMsg items))"

definition attachment_effects :: "string \<Rightarrow> string \<Rightarrow> (string \<times> bytes) list \<Rightarrow> effect list" where
  "attachment_effects client_id encMsg items =
     (if items = [] then []
      else concat (map (attachment_frames client_id) (found_items encMsg items))
           @ [FreeAttachments (found_keys encMsg items)])"

text \<open>
  The condition of the hello claim: \<^verbatim>\<open>args[0]\<close> is a mapping with a key \<^verbatim>\<open>secret\<close> whose
  value equals the secret.
\<close>

definition presents_secret :: "pyval list \<Rightarrow> string \<Rightarrow> bool" where
  "presents_secret args secret =
     (case args of
        PDict kvs # _ \<Rightarrow> map_of kvs ''secret'' = Some (PStr secret)
      | _ \<Rightarrow> False)"

definition args_of :: "(string \<times> pyval) list \<Rightarrow> pyval list" where
  "args_of kvs = (case map_of kvs ''args'' of Some (PList xs) \<Rightarrow> xs | _ \<Rightarrow> [])"

definition kwargs_of :: "(string \<times> pyval) list \<Rightarrow> (string \<times> pyval) list" where
  "kwargs_of kvs = (case map_of kvs ''kwargs'' of Some (PDict d) \<Rightarrow> d | _ \<Rightarrow> [])"

text \<open>
  The state of the publish manager after a sequence of effects: the logged calls into the
  manager are applied in order, frames leave it unchanged.
\<close>

fun apply_effect :: "publish_manager \<Rightarrow> effect \<Rightarrow> publish_manager" where
  "apply_effect pm (RegisterAttachment key) = registerAttachment key pm"
| "apply_effect pm (UnregisterAttachment key) = unregisterAttachment key pm"
| "apply_effect pm (FreeAttachments keys) = freeAttachments keys pm"
| "apply_effect pm e = pm"

definition replay :: "effect list \<Rightarrow> publish_manager \<Rightarrow> publish_manager" where
  "replay es pm = foldl apply_effect pm es"





text \<open>
  A reply to a request: a message with the version, the \<^verbatim>\<open>id\<close> of the request and
  exactly one of \<^verbatim>\<open>result\<close> and \<^verbatim>\<open>error\<close>. And the shape of the traffic that may come
  before a reply on the same websocket: attachment pairs, then one call of
  \<^verbatim>\<open>freeAttachments\<close>.
\<close>

definition is_reply_to :: "pyval \<Rightarrow> pyval \<Rightarrow> bool" where
  "is_reply_to rpcid v =
     (member ''wslink'' v = Some (PStr ''1.0'') \<and> member ''id'' v = Some rpcid \<and>
      ((member ''result'' v = None) \<noteq> (member ''error'' v = None)))"

definition one_reply :: "string \<Rightarrow> pyval \<Rightarrow> effect list \<Rightarrow> bool" where
  "one_reply client_id rpcid sent =
     (\<exists>items keys reply.
        (sent = [SendStr client_id (wire reply)] \<or>
         sent = concat (map (attachment_frames client_id) items) @ [FreeAttachments keys] @
                [SendStr client_id (wire reply)]) \<and>
        json_dumps reply \<noteq> None \<and> is_reply_to rpcid reply)"

subsection \<open>Example environment and states\<close>

text \<open>
  An RPC method that returns its first argument, and the JSON texts of the examples with
  the values \<^verbatim>\<open>json.loads\<close> gives for them; every other text counts as malformed.
\<close>

definition echo :: rpc_method where
  "echo args kwargs pm =
     (case args of [] \<Rightarrow> (Inl (UserException ''IndexError''), pm) | a # _ \<Rightarrow> (Inr a, pm))"

definition demo_loads :: "string \<Rightarrow> pyval option" where
  \<open>demo_loads = map_of
    [(''{"wslink": "1.0", "id": "system:0", "method": "wslink.hello", "args": [{"secret": "S"}]}'',
      PDict [(''wslink'', PStr ''1.0''), (''id'', PStr ''system:0''),
             (''method'', PStr ''wslink.hello''),
             (''args'', PList [PDict [(''secret'', PStr ''S'')]])]),
     (''{"id": "rpc:1", "method": "echo"}'',
      PDict [(''id'', PStr ''rpc:1''), (''method'', PStr ''echo'')]),
     (''{"wslink": "1.0", "id": "rpc:1", "method": ""}'',
      PDict [(''wslink'', PStr ''1.0''), (''id'', PStr ''rpc:1''), (''method'', PStr [])]),
     (''{"wslink": "1.0", "id": "rpc:1", "method": "no.such.method"}'',
      PDict [(''wslink'', PStr ''1.0''), (''id'', PStr ''rpc:1''),
             (''method'', PStr ''no.such.method'')]),
     (''{"wslink": "1.0", "id": "system:1", "method": "wslink.bye"}'',
      PDict [(''wslink'', PStr ''1.0''), (''id'', PStr ''system:1''),
             (''method'', PStr ''wslink.bye'')]),
     (''{"wslink": "1.0", "id": "system", "method": "echo", "args": ["hi"]}'',
      PDict [(''wslink'', PStr ''1.0''), (''id'', PStr ''system''), (''method'', PStr ''echo''),
             (''args'', PList [PStr ''hi''])]),
     (''{"wslink": "1.0", "id": "rpc:2", "method": "echo", "args": ["hi"]}'',
      PDict [(''wslink'', PStr ''1.0''), (''id'', PStr ''rpc:2''), (''method'', PStr ''echo''),
             (''args'', PList [PStr ''hi''])]),
     (''{"wslink": "1.0", "method": "wslink.binary.attachment", "args": [["x"]]}'',
      PDict [(''wslink'', PStr ''1.0''), (''method'', PStr ''wslink.binary.attachment''),
             (''args'', PList [PList [PStr ''x'']])])]\<close>

definition demo_env :: env where
  "demo_env =
     \<lparr>json_loads = demo_loads,
      code_of = (\<lambda>c. case c of AUTHENTICATION_ERROR \<Rightarrow> 1 | METHOD_NOT_FOUND \<Rightarrow> 2
                       | EXCEPTION_ERROR \<Rightarrow> 3 | RESULT_SERIALIZE_ERROR \<Rightarrow> 4),
      repr_exc = (\<lambda>e. ''repr''),
      format_exc = (\<lambda>e. ''trace''),
      timeout = 5\<rparr>"

text \<open>
  The state after startup (no client, the shutdown task 0 pending), and the state with one
  client \<open>c1\<close> connected.
\<close>

definition idle_world :: world where
  "idle_world =
     \<lparr>serverProtocol = Some ''S'',
      handler_secret = None,
      functionMap = [''echo'' \<mapsto> echo],
      attachmentsReceived = Map.empty,
      attachmentsRecvQueue = [],
      connections = [],
      publishManager = \<lparr>attachmentMap = [], attachmentRefCounts = (\<lambda>k. 0)\<rparr>,
      shutdown_task = Some 0,
      pending_tasks = [0],
      next_task = 1,
      running = False,
      effects = []\<rparr>"

definition open_world :: world where
  "open_world = idle_world\<lparr>connections := [''c1''], shutdown_task := None, pending_tasks := []\<rparr>"

text \<open>The same state with two blobs in the publish attachment map, both with count 0.\<close>

definition blob_world :: world where
  "blob_world =
     open_world\<lparr>publishManager :=
       \<lparr>attachmentMap = [(''wslink_bin0'', [0]), (''wslink_bin1'', [1])],
        attachmentRefCounts = (\<lambda>k. 0)\<rparr>\<rparr>"

section \<open>What the operations do\<close>

text \<open>
  The lemmas of this section evaluate the operations of the handler on an arbitrary state;
  the properties of the following sections are read off them.
\<close>

subsection \<open>Computations\<close>

lemmas prog_defs = ret_def raise_def bnd_def catch_def emit_def

lemma bnd_ret [simp]: "bnd (ret x) f = f x"
  by (rule ext) (simp add: prog_defs)

lemma bnd_raise [simp]: "bnd (raise e) f = raise e"
  by (rule ext) (simp add: prog_defs)

subsection \<open>Binary frames\<close>




subsection \<open>Sending\<close>

lemma for_each_emit:
  "for_each xs (\<lambda>x. emit (f x)) w = (Inr (), w\<lparr>effects := effects w @ map f xs\<rparr>)"
  by (induction xs arbitrary: w) (simp_all add: prog_defs)

lemma websockets_for_client:
  "client_id \<noteq> [] \<Longrightarrow> client_id \<in> set (connections w) \<Longrightarrow>
   websockets_for client_id w = (Inr [client_id], w)"
  by (simp add: websockets_for_def)

lemma dumps_run:
  "dumps v w = (case json_dumps v of None \<Rightarrow> (Inl TypeError, w) | Some t \<Rightarrow> (Inr t, w))"
  by (simp add: dumps_def prog_defs split: option.splits)

lemma sendWrappedError_run:
  "sendWrappedError rpcid code message data client_id w =
     (case json_dumps (error_wrapper rpcid code message data) of
        None \<Rightarrow> (Inl TypeError, w)
      | Some encMsg \<Rightarrow>
          (if client_id \<noteq> []
           then (if client_id \<in> set (connections w)
                 then (Inr (), w\<lparr>effects := effects w @ [SendStr client_id encMsg]\<rparr>)
                 else (Inl KeyError, w))
           else (Inr (), w\<lparr>effects := effects w @ map (\<lambda>ws. SendStr ws encMsg) (connections w)\<rparr>)))"
  by (simp add: sendWrappedError_def dumps_run bnd_def websockets_for_def for_each_emit
           emit_def ret_def split: option.splits)


lemma header_serializable:
  "json_dumps (attachment_header key) = Some (wire (attachment_header key))"
  by (simp add: attachment_header_def wire_def)

lemma refcount_restore:
  "unregisterAttachment key (registerAttachment key pm) = pm"
  by (simp add: unregisterAttachment_def registerAttachment_def)

lemma send_attachments_run:
  "send_attachments [client_id] encMsg items found w =
     (Inr (foldl add_key found (map fst (found_items encMsg items))),
      w\<lparr>effects := effects w @ concat (map (attachment_frames client_id) (found_items encMsg items))\<rparr>)"
proof (induction items arbitrary: found w)
  case Nil
  then show ?case by (simp add: found_items_def ret_def)
next
  case (Cons item rest)
  show ?case
  proof (cases "str_contains (fst item) encMsg")
    case False
    then show ?thesis using Cons.IH by (simp add: found_items_def)
  next
    case True
    then show ?thesis
      using Cons.IH
      by (simp add: found_items_def pm_call_def bnd_def dumps_run header_serializable
            emit_def ret_def refcount_restore attachment_frames_def add_key_def)
  qed
qed

lemma foldl_add_key_distinct:
  "distinct (acc @ ks) \<Longrightarrow> foldl add_key acc ks = acc @ ks"
  by (induction ks arbitrary: acc) (auto simp: add_key_def)

lemma found_keys_distinct:
  "distinct (map fst items) \<Longrightarrow> found_keys encMsg items = map fst (found_items encMsg items)"
  unfolding found_keys_def found_items_def
  using foldl_add_key_distinct [of "[]" "map fst (filter (\<lambda>item. str_contains (fst item) encMsg) items)"]
  by (simp add: distinct_map_filter)

lemma sendWrappedMessage_run:
  assumes "client_id \<noteq> []" and "client_id \<in> set (connections w)"
    and "json_dumps (result_wrapper rpcid content) = Some encMsg"
  shows "sendWrappedMessage en rpcid content method client_id w =
     (Inr (),
      w\<lparr>publishManager :=
          (if attachmentMap (publishManager w) = [] then publishManager w
           else freeAttachments (found_keys encMsg (attachmentMap (publishManager w)))
                  (publishManager w)),
        effects := effects w @ attachment_effects client_id encMsg (attachmentMap (publishManager w))
                   @ [SendStr client_id encMsg]\<rparr>)"
  using assms
  by (simp add: sendWrappedMessage_def websockets_for_client bnd_def getAttachmentMap_def
        send_attachments_run pm_call_def emit_def ret_def attachment_effects_def found_keys_def)

lemma sendWrappedMessage_unserializable:
  assumes "json_dumps (result_wrapper rpcid content) = None"
  shows "sendWrappedMessage en rpcid content method client_id =
         sendWrappedError rpcid (code_of en RESULT_SERIALIZE_ERROR)
           ''Method result cannot be serialized'' method client_id"
  using assms by (simp add: sendWrappedMessage_def)

subsection \<open>System messages\<close>

lemma hello_check_run:
  "serverProtocol w = Some secret \<Longrightarrow>
   hello_check args w = (Inr (presents_secret args secret), w)"
  by (auto simp: hello_check_def presents_secret_def split: list.splits pyval.splits option.splits)

lemma split_on_nonempty: "split_on sep s \<noteq> []"
  by (induction s) (auto split: list.splits)

lemma hd_split_on: "hd (split_on sep s) = takeWhile (\<lambda>c. c \<noteq> sep) s"
  by (induction s) (auto split: list.splits simp: split_on_nonempty)

lemma is_system_id_takeWhile:
  "is_system_id rid = (takeWhile (\<lambda>c. c \<noteq> CHR '':'') rid = ''system'')"
  using hd_split_on [of "CHR '':''" rid] split_on_nonempty [of "CHR '':''" rid]
  by (cases "split_on CHR '':'' rid") (auto simp: is_system_id_def)

lemma takeWhile_eq_iff:
  "(takeWhile (\<lambda>c. c \<noteq> sep) s = p) =
   (sep \<notin> set p \<and> (s = p \<or> prefix (p @ [sep]) s))"
proof (induction s arbitrary: p)
  case Nil
  then show ?case by auto
next
  case (Cons c cs)
  show ?case
  proof (cases p)
    case Nil
    then show ?thesis by auto
  next
    case (Cons x xs)
    then show ?thesis using Cons.IH [of xs] by auto
  qed
qed

lemma is_system_id_iff:
  "is_system_id rid = (rid = ''system'' \<or> prefix ''system:'' rid)"
  unfolding is_system_id_takeWhile takeWhile_eq_iff by simp

subsection \<open>The fields of a request\<close>

lemma in_keys_iff: "(key \<in> fst ` set kvs) = (map_of kvs key \<noteq> None)"
  by (simp add: map_of_eq_None_iff)

lemma rpc_args_run: "rpc_args (PDict kvs) = ret (args_of kvs)"
  by (rule ext)
     (simp add: rpc_args_def py_in_def py_getitem_def args_of_def in_keys_iff prog_defs
        split: option.splits pyval.splits)

lemma rpc_kwargs_run: "rpc_kwargs (PDict kvs) = ret (kwargs_of kvs)"
  by (rule ext)
     (simp add: rpc_kwargs_def py_in_def py_getitem_def kwargs_of_def in_keys_iff prog_defs
        split: option.splits pyval.splits)

lemma onMessage_request:
  assumes "json_loads en payload = Some (PDict kvs)"
    and "map_of kvs ''wslink'' = Some ver"
    and "map_of kvs ''id'' = Some rpcid"
    and "map_of kvs ''method'' = Some methodName"
  shows "onMessage en (Text payload) client_id =
         dispatch en rpcid methodName (args_of kvs) (kwargs_of kvs) client_id"
  using assms
  by (simp add: onMessage_def py_in_def in_keys_iff on_request_def py_getitem_def
        rpc_args_run rpc_kwargs_run)

subsection \<open>Replies of the system path and of the lookup\<close>

lemma error_wrapper_serializable:
  assumes "json_dumps rpcid \<noteq> None" and "truthy data \<longrightarrow> json_dumps data \<noteq> None"
  shows "json_dumps (error_wrapper rpcid code message data) =
         Some (wire (error_wrapper rpcid code message data))"
  using assms by (auto simp: error_wrapper_def error_object_def wire_def)

lemma error_reply:
  assumes "client_id \<noteq> []" and "client_id \<in> set (connections w)"
    and "json_dumps rpcid \<noteq> None" and "truthy data \<longrightarrow> json_dumps data \<noteq> None"
  shows "sendWrappedError rpcid code message data client_id w =
         (Inr (), w\<lparr>effects := effects w @
            [SendStr client_id (wire (error_wrapper rpcid code message data))]\<rparr>)"
  using assms error_wrapper_serializable [OF assms(3,4)]
  by (simp add: sendWrappedError_run)

lemma handleSystemMessage_other:
  "\<not> is_system_id rid \<Longrightarrow>
   handleSystemMessage en (PStr rid) methodName args client_id w = (Inr False, w)"
  by (simp add: handleSystemMessage_def ret_def)

lemma handleSystemMessage_unknown:
  assumes "is_system_id rid" and "methodName \<noteq> PStr ''wslink.hello''"
    and "client_id \<noteq> []" and "client_id \<in> set (connections w)"
  shows "handleSystemMessage en (PStr rid) methodName args client_id w =
         (Inr True, w\<lparr>effects := effects w @
            [SendStr client_id (wire (error_wrapper (PStr rid) (code_of en METHOD_NOT_FOUND)
               ''Unknown system method called'' PNone))]\<rparr>)"
  using assms by (simp add: handleSystemMessage_def bnd_def error_reply ret_def)

lemma handleSystemMessage_hello_fail:
  assumes "is_system_id rid" and "serverProtocol w = Some secret"
    and "\<not> presents_secret args secret"
    and "client_id \<noteq> []" and "client_id \<in> set (connections w)"
  shows "handleSystemMessage en (PStr rid) (PStr ''wslink.hello'') args client_id w =
         (Inr True, w\<lparr>effects := effects w @
            [SendStr client_id (wire (error_wrapper (PStr rid) (code_of en AUTHENTICATION_ERROR)
               ''Authentication failed'' PNone))]\<rparr>)"
  using assms by (simp add: handleSystemMessage_def bnd_def hello_check_run error_reply ret_def)

lemma result_wrapper_serializable:
  assumes "json_dumps rpcid \<noteq> None" and "json_dumps content \<noteq> None"
  shows "json_dumps (result_wrapper rpcid content) = Some (wire (result_wrapper rpcid content))"
  using assms by (auto simp: result_wrapper_def wire_def)

lemma handleSystemMessage_hello_ok:
  assumes "is_system_id rid" and "serverProtocol w = Some secret"
    and "presents_secret args secret"
    and "client_id \<noteq> []" and "client_id \<in> set (connections w)"
  shows "handleSystemMessage en (PStr rid) (PStr ''wslink.hello'') args client_id w =
         (Inr True,
          w\<lparr>publishManager :=
              (if attachmentMap (publishManager w) = [] then publishManager w
               else freeAttachments
                      (found_keys
                         (wire (result_wrapper (PStr rid)
                                  (PDict [(''clientID'', PStr (''c'' @ client_id))])))
                         (attachmentMap (publishManager w)))
                      (publishManager w)),
            effects := effects w @
              attachment_effects client_id
                (wire (result_wrapper (PStr rid) (PDict [(''clientID'', PStr (''c'' @ client_id))])))
                (attachmentMap (publishManager w)) @
              [SendStr client_id
                (wire (result_wrapper (PStr rid)
                         (PDict [(''clientID'', PStr (''c'' @ client_id))])))]\<rparr>)"
proof -
  have ser: "json_dumps (result_wrapper (PStr rid) (PDict [(''clientID'', PStr (''c'' @ client_id))])) =
        Some (wire (result_wrapper (PStr rid) (PDict [(''clientID'', PStr (''c'' @ client_id))])))"
    by (rule result_wrapper_serializable) simp_all
  show ?thesis
    using assms sendWrappedMessage_run [OF assms(4,5) ser, of en "PStr []"]
    by (simp add: handleSystemMessage_def bnd_def hello_check_run ret_def)
qed

lemma dispatch_system:
  assumes "is_system_id rid"
  shows "dispatch en (PStr rid) methodName args kwargs client_id w =
         bnd (handleSystemMessage en (PStr rid) methodName args client_id) (\<lambda>_. ret ()) w"
  using assms
  by (simp add: dispatch_def handleSystemMessage_def bnd_def ret_def
        split: prod.splits sum.splits)

lemma dispatch_other:
  assumes "\<not> is_system_id rid"
  shows "dispatch en (PStr rid) methodName args kwargs client_id w =
         call_rpc en (PStr rid) methodName args kwargs client_id w"
  using assms by (simp add: dispatch_def handleSystemMessage_other bnd_def)

lemma handled_iff:
  "(fst (handleSystemMessage en (PStr rid) methodName args client_id w) = Inr False) =
   (\<not> is_system_id rid)"
  by (simp add: handleSystemMessage_def bnd_def ret_def split: prod.splits sum.splits)

lemma call_rpc_unregistered:
  assumes "functionMap w m = None" and "client_id \<noteq> []" and "client_id \<in> set (connections w)"
    and "json_dumps rpcid \<noteq> None"
  shows "call_rpc en rpcid (PStr m) args kwargs client_id w =
         (Inr (), w\<lparr>effects := effects w @
            [SendStr client_id (wire (error_wrapper rpcid (code_of en METHOD_NOT_FOUND)
               ''Unregistered method called'' (PStr m)))]\<rparr>)"
  using assms by (simp add: call_rpc_def lookup_method_def bnd_def error_reply)

text \<open>The definitions unfolded to evaluate the examples.\<close>

lemmas eval_defs = wire_def json_str_def escape_char_def show_int_def show_nat.simps

lemmas demo_defs = demo_env_def demo_loads_def open_world_def idle_world_def

lemma onMessage_unregistered:
  assumes "json_loads en payload = Some (PDict kvs)"
    and "map_of kvs ''wslink'' = Some ver"
    and "map_of kvs ''id'' = Some (PStr rid)"
    and "map_of kvs ''method'' = Some (PStr m)"
    and "\<not> is_system_id rid"
    and "functionMap w m = None"
    and "client_id \<noteq> []" and "client_id \<in> set (connections w)"
  shows "onMessage en (Text payload) client_id w =
         (Inr (), w\<lparr>effects := effects w @
            [SendStr client_id (wire (error_wrapper (PStr rid) (code_of en METHOD_NOT_FOUND)
               ''Unregistered method called'' (PStr m)))]\<rparr>)"
  using assms
  by (simp add: onMessage_request [OF assms(1-4)] dispatch_other call_rpc_unregistered)

lemma onMessage_unknown_system:
  assumes "json_loads en payload = Some (PDict kvs)"
    and "map_of kvs ''wslink'' = Some ver"
    and "map_of kvs ''id'' = Some (PStr rid)"
    and "map_of kvs ''method'' = Some methodName"
    and "is_system_id rid"
    and "methodName \<noteq> PStr ''wslink.hello''"
    and "client_id \<noteq> []" and "client_id \<in> set (connections w)"
  shows "onMessage en (Text payload) client_id w =
         (Inr (), w\<lparr>effects := effects w @
            [SendStr client_id (wire (error_wrapper (PStr rid) (code_of en METHOD_NOT_FOUND)
               ''Unknown system method called'' PNone))]\<rparr>)"
  using assms
  by (simp add: onMessage_request [OF assms(1-4)] dispatch_system bnd_def
        handleSystemMessage_unknown ret_def)

subsection \<open>Reference counts along the effects\<close>

lemma replay_append: "replay (xs @ ys) pm = replay ys (replay xs pm)"
  by (simp add: replay_def)

lemma replay_frames: "replay (attachment_frames client_id item) pm = pm"
  by (simp add: replay_def attachment_frames_def refcount_restore)

lemma replay_all_frames: "replay (concat (map (attachment_frames client_id) items)) pm = pm"
  by (induction items) (simp_all add: replay_append replay_frames, simp add: replay_def)

lemma replay_register:
  "attachmentRefCounts (replay [RegisterAttachment key] pm) key = attachmentRefCounts pm key + 1"
  by (simp add: replay_def registerAttachment_def)

lemmas send_defs = sendWrappedMessage_def result_wrapper_def websockets_for_def
  getAttachmentMap_def pm_call_def dumps_def attachment_header_def
  registerAttachment_def unregisterAttachment_def freeAttachments_def

subsection \<open>The read loop\<close>




lemmas run_defs = onMessage_def py_in_def py_get_def py_getitem_def on_no_id_def on_request_def
  rpc_args_def rpc_kwargs_def dispatch_def call_rpc_def lookup_method_def invoke_def
  find_attachments_def call_method_def handleSystemMessage_def is_system_id_def hello_check_def
  sendWrappedError_def error_wrapper_def error_object_def extend_queue_def on_binary_def
  pop_queue_def store_attachment_def is_placeholder_def is_digit_def


subsection \<open>Connect, disconnect and shutdown\<close>

lemma ws_connect_run:
  "ws_connect client_id w =
     (Inr (),
      case shutdown_task w of
        None \<Rightarrow>
          w\<lparr>connections := (if client_id \<in> set (connections w) then connections w
                             else connections w @ [client_id])\<rparr>
      | Some t \<Rightarrow>
          w\<lparr>connections := (if client_id \<in> set (connections w) then connections w
                             else connections w @ [client_id]),
            pending_tasks := removeAll t (pending_tasks w),
            effects := effects w @ [CancelTask t],
            shutdown_task := None\<rparr>)"
  by (simp add: ws_connect_def cancel_task_def prog_defs split: option.splits)

lemma ws_disconnect_last:
  assumes "client_id \<in> set (connections w)" and "removeAll client_id (connections w) = []"
  shows "ws_disconnect en client_id w =
     (Inr (),
      w\<lparr>connections := [],
        shutdown_task := Some (next_task w),
        pending_tasks := pending_tasks w @ [next_task w],
        next_task := Suc (next_task w),
        effects := effects w @ [ScheduleTask (next_task w) (timeout en)]\<rparr>)"
  using assms by (simp add: ws_disconnect_def schedule_shutdown_def prog_defs)

lemma ws_disconnect_others:
  assumes "client_id \<in> set (connections w)" and "removeAll client_id (connections w) \<noteq> []"
  shows "ws_disconnect en client_id w =
     (Inr (), w\<lparr>connections := removeAll client_id (connections w)\<rparr>)"
  using assms by (simp add: ws_disconnect_def prog_defs)

lemma stop_server_run:
  "stop_server w =
     (if running w then Inl InvalidStateError else Inr (),
      w\<lparr>effects := effects w @
           map (\<lambda>c. CloseWs c 1001 ''Server shutdown'') (connections w) @ [RunnerCleanup] @
           (if running w then [] else [SetRunningResult]),
        running := True\<rparr>)"
  by (simp add: stop_server_def disconnectClients_def bnd_def for_each_emit emit_def
        set_running_result_def)

subsection \<open>The traversal of the arguments\<close>








subsection \<open>One reply for a request with its fields\<close>

text \<open>
  A request that carries \<^verbatim>\<open>wslink\<close>, a string \<^verbatim>\<open>id\<close> and a string \<^verbatim>\<open>method\<close>, on a
  handler with a protocol object, is answered on every path: the frames sent are
  attachment traffic followed by exactly one reply with the \<^verbatim>\<open>id\<close> of the request, which
  has exactly one of \<^verbatim>\<open>result\<close> and \<^verbatim>\<open>error\<close>, whatever the registered method does.
\<close>

lemma is_reply_to_error [simp]: "is_reply_to rpcid (error_wrapper rpcid code message data)"
  by (simp add: is_reply_to_def member_def error_wrapper_def)

lemma is_reply_to_result [simp]: "is_reply_to rpcid (result_wrapper rpcid content)"
  by (simp add: is_reply_to_def member_def result_wrapper_def)

lemma one_reply_error:
  assumes "json_dumps rpcid \<noteq> None" and "truthy data \<longrightarrow> json_dumps data \<noteq> None"
  shows "one_reply client_id rpcid
           [SendStr client_id (wire (error_wrapper rpcid code message data))]"
  unfolding one_reply_def
  using error_wrapper_serializable [OF assms, of code message] is_reply_to_error
  by (metis option.distinct(1))

lemma one_reply_result:
  assumes "json_dumps (result_wrapper rpcid content) = Some encMsg"
  shows "one_reply client_id rpcid (attachment_effects client_id encMsg items @
           [SendStr client_id encMsg])"
proof -
  have w: "wire (result_wrapper rpcid content) = encMsg"
    using assms by (simp add: wire_def)
  show ?thesis
  proof (cases "items = []")
    case True
    then show ?thesis
      unfolding one_reply_def attachment_effects_def
      using assms w is_reply_to_result [of rpcid content]
      by (metis append_Nil option.distinct(1))
  next
    case False
    then have "attachment_effects client_id encMsg items @ [SendStr client_id encMsg] =
        concat (map (attachment_frames client_id) (found_items encMsg items)) @
        [FreeAttachments (found_keys encMsg items)] @
        [SendStr client_id (wire (result_wrapper rpcid content))]"
      by (simp add: attachment_effects_def w)
    then show ?thesis
      unfolding one_reply_def
      using assms is_reply_to_result [of rpcid content]
      by (metis option.distinct(1))
  qed
qed

lemma sendWrappedError_one_reply:
  assumes "client_id \<noteq> []" and "client_id \<in> set (connections w)"
    and "json_dumps rpcid \<noteq> None" and "truthy data \<longrightarrow> json_dumps data \<noteq> None"
  shows "\<exists>w'. sendWrappedError rpcid code message data client_id w = (Inr (), w') \<and>
           (\<exists>sent. effects w' = effects w @ sent \<and> one_reply client_id rpcid sent)"
  using error_reply [OF assms, of code message] one_reply_error [OF assms(3,4), of client_id code message]
  by auto

lemma sendWrappedMessage_one_reply:
  assumes "client_id \<noteq> []" and "client_id \<in> set (connections w)"
    and "json_dumps rpcid \<noteq> None" and "json_dumps method \<noteq> None"
  shows "\<exists>w'. sendWrappedMessage en rpcid content method client_id w = (Inr (), w') \<and>
           (\<exists>sent. effects w' = effects w @ sent \<and> one_reply client_id rpcid sent)"
proof (cases "json_dumps (result_wrapper rpcid content)")
  case None
  then show ?thesis
    using sendWrappedError_one_reply [OF assms(1-3), of "method"] assms(4)
    by (simp add: sendWrappedMessage_unserializable)
next
  case (Some encMsg)
  show ?thesis
    using sendWrappedMessage_run [OF assms(1,2) Some, of en "method"]
      one_reply_result [OF Some, of client_id "attachmentMap (publishManager w)"]
    by auto
qed

lemma exception_data_serializable:
  "json_dumps methodName \<noteq> None \<Longrightarrow> json_dumps (exception_data en methodName e) \<noteq> None"
  by (auto simp: exception_data_def)

lemma invoke_one_reply:
  assumes "client_id \<noteq> []" and "client_id \<in> set (connections w)"
    and "json_dumps rpcid \<noteq> None" and "json_dumps methodName \<noteq> None"
  shows "\<exists>w'. invoke en func rpcid methodName args kwargs client_id w = (Inr (), w') \<and>
           (\<exists>sent. effects w' = effects w @ sent \<and> one_reply client_id rpcid sent)"
proof -
  obtain a r1 where A: "findAttachments_list args (attachmentsReceived w) = (a, r1)"
    by (cases "findAttachments_list args (attachmentsReceived w)")
  obtain k r2 where K: "findAttachments_items kwargs r1 = (k, r2)"
    by (cases "findAttachments_items kwargs r1")
  obtain out pm1 where F: "func a k (publishManager w) = (out, pm1)"
    by (cases "func a k (publishManager w)")
  define w2 where "w2 = w\<lparr>attachmentsReceived := r2, publishManager := pm1\<rparr>"
  have c: "client_id \<in> set (connections w2)" and e: "effects w2 = effects w"
    using assms(2) by (simp_all add: w2_def)
  show ?thesis
  proof (cases out)
    case (Inl exc)
    obtain w' sent where
      s: "sendWrappedError rpcid (code_of en EXCEPTION_ERROR) ''Exception raised''
            (exception_data en methodName exc) client_id w2 = (Inr (), w')"
      and r: "effects w' = effects w2 @ sent" "one_reply client_id rpcid sent"
      using sendWrappedError_one_reply [OF assms(1) c assms(3), of "exception_data en methodName exc"]
        exception_data_serializable [OF assms(4)]
      by blast
    have "invoke en func rpcid methodName args kwargs client_id w = (Inr (), w')"
      using A K F Inl s
      by (simp add: invoke_def find_attachments_def call_method_def bnd_def catch_def w2_def)
    then show ?thesis using r e by auto
  next
    case (Inr results)
    obtain w' sent where
      s: "sendWrappedMessage en rpcid results methodName client_id w2 = (Inr (), w')"
      and r: "effects w' = effects w2 @ sent" "one_reply client_id rpcid sent"
      using sendWrappedMessage_one_reply [OF assms(1) c assms(3,4)] by blast
    have "invoke en func rpcid methodName args kwargs client_id w = (Inr (), w')"
      using A K F Inr s
      by (simp add: invoke_def find_attachments_def call_method_def bnd_def catch_def w2_def)
    then show ?thesis using r e by auto
  qed
qed

lemma handleSystemMessage_one_reply:
  assumes "is_system_id rid" and "serverProtocol w = Some secret"
    and "client_id \<noteq> []" and "client_id \<in> set (connections w)"
  shows "\<exists>w'. handleSystemMessage en (PStr rid) methodName args client_id w = (Inr True, w') \<and>
           (\<exists>sent. effects w' = effects w @ sent \<and> one_reply client_id (PStr rid) sent)"
proof -
  have i: "json_dumps (PStr rid) \<noteq> None" by simp
  show ?thesis
  proof (cases "methodName = PStr ''wslink.hello''")
    case False
    show ?thesis
      using handleSystemMessage_unknown [OF assms(1) False assms(3,4), of en args]
        one_reply_error [OF i, of PNone client_id]
      by auto
  next
    case True
    show ?thesis
    proof (cases "presents_secret args secret")
      case False
      show ?thesis
        using handleSystemMessage_hello_fail [OF assms(1,2) False assms(3,4), of en]
          one_reply_error [OF i, of PNone client_id] True
        by auto
    next
      case ok: True
      obtain w' sent where
        s: "sendWrappedMessage en (PStr rid) (PDict [(''clientID'', PStr (''c'' @ client_id))])
              (PStr []) client_id w = (Inr (), w')"
        and r: "effects w' = effects w @ sent" "one_reply client_id (PStr rid) sent"
        using sendWrappedMessage_one_reply [OF assms(3,4) i, of "PStr []" en
            "PDict [(''clientID'', PStr (''c'' @ client_id))]"]
        by auto
      have "handleSystemMessage en (PStr rid) methodName args client_id w = (Inr True, w')"
        using assms(1) True ok s hello_check_run [OF assms(2), of args]
        by (simp add: handleSystemMessage_def bnd_def ret_def)
      then show ?thesis using r by auto
    qed
  qed
qed

lemma dispatch_one_reply:
  assumes "serverProtocol w = Some secret"
    and "client_id \<noteq> []" and "client_id \<in> set (connections w)"
  shows "\<exists>w'. dispatch en (PStr rid) (PStr m) args kwargs client_id w = (Inr (), w') \<and>
           (\<exists>sent. effects w' = effects w @ sent \<and> one_reply client_id (PStr rid) sent)"
proof (cases "is_system_id rid")
  case True
  show ?thesis
    using handleSystemMessage_one_reply [OF True assms, of en "PStr m" args]
    by (auto simp: dispatch_system [OF True] bnd_def ret_def)
next
  case False
  have i: "json_dumps (PStr rid) \<noteq> None" "json_dumps (PStr m) \<noteq> None" by simp_all
  show ?thesis
  proof (cases "functionMap w m")
    case None
    show ?thesis
      using call_rpc_unregistered [OF None assms(2,3) i(1), of en args kwargs]
        one_reply_error [OF i(1), of "PStr m" client_id]
      by (auto simp: dispatch_other [OF False])
  next
    case (Some func)
    show ?thesis
      using invoke_one_reply [OF assms(2,3) i, of en func args kwargs] Some
      by (simp add: dispatch_other [OF False] call_rpc_def lookup_method_def bnd_def)
  qed
qed

lemma request_one_reply:
  assumes "json_loads en payload = Some (PDict kvs)"
    and "map_of kvs ''wslink'' = Some ver"
    and "map_of kvs ''id'' = Some (PStr rid)"
    and "map_of kvs ''method'' = Some (PStr m)"
    and "serverProtocol w = Some secret"
    and "client_id \<noteq> []" and "client_id \<in> set (connections w)"
  shows "\<exists>w'. onMessage en (Text payload) client_id w = (Inr (), w') \<and>
           (\<exists>sent. effects w' = effects w @ sent \<and> one_reply client_id (PStr rid) sent)"
  using dispatch_one_reply [OF assms(5-7)]
  by (simp add: onMessage_request [OF assms(1-4)])

section \<open>Binary frames\<close>





section \<open>The hello handshake\<close>

text \<open>
  C3. For a request whose id has the system prefix and whose method is \<^verbatim>\<open>wslink.hello\<close>,
  on a handler whose server protocol has the secret \<open>secret\<close>: if \<^verbatim>\<open>args[0]\<close> is a mapping
  with a key \<^verbatim>\<open>secret\<close> whose value equals the secret, the reply is the success
  \<^verbatim>\<open>{wslink: "1.0", id, result: {clientID: "c" + client_id}}\<close>; in every other case
  (no args, \<^verbatim>\<open>args[0]\<close> not a mapping, no \<^verbatim>\<open>secret\<close> key, another value) it is the
  error with code AUTHENTICATION_ERROR and message "Authentication failed". The reply is
  the last frame sent; a success is sent by \<^verbatim>\<open>sendWrappedMessage\<close>, whose attachment
  traffic comes before it. The secret compared is the \<^verbatim>\<open>secret\<close> attribute of the server
  protocol object; the attribute written by \<^verbatim>\<open>setSecret\<close> plays no part.
\<close>

theorem hello_reply:
  assumes "prefix ''system:'' rid"
    and "serverProtocol w = Some secret"
    and "client_id \<noteq> []" and "client_id \<in> set (connections w)"
  shows "fst (handleSystemMessage en (PStr rid) (PStr ''wslink.hello'') args client_id w) = Inr True \<and>
    effects (snd (handleSystemMessage en (PStr rid) (PStr ''wslink.hello'') args client_id w)) =
      effects w @
      (if presents_secret args secret
       then
         attachment_effects client_id
           (wire (PDict [(''wslink'', PStr ''1.0''), (''id'', PStr rid),
                         (''result'', PDict [(''clientID'', PStr (''c'' @ client_id))])]))
           (attachmentMap (publishManager w)) @
         [SendStr client_id
           (wire (PDict [(''wslink'', PStr ''1.0''), (''id'', PStr rid),
                         (''result'', PDict [(''clientID'', PStr (''c'' @ client_id))])]))]
       else
         [SendStr client_id
           (wire (PDict [(''wslink'', PStr ''1.0''), (''id'', PStr rid),
                         (''error'', PDict [(''code'', PInt (code_of en AUTHENTICATION_ERROR)),
                                            (''message'', PStr ''Authentication failed'')])]))])"
proof -
  have sys: "is_system_id rid"
    using assms(1) by (simp add: is_system_id_iff)
  show ?thesis
  proof (cases "presents_secret args secret")
    case True
    show ?thesis
      using True handleSystemMessage_hello_ok [OF sys assms(2) True assms(3,4), of en]
      by (simp add: result_wrapper_def)
  next
    case False
    show ?thesis
      using False handleSystemMessage_hello_fail [OF sys assms(2) False assms(3,4), of en]
      by (simp add: error_wrapper_def error_object_def)
  qed
qed

text \<open>
  Scenario 1 of the spec, with the server secret \<^verbatim>\<open>S\<close> and the client \<^verbatim>\<open>c1\<close>, and the
  same request with the secret \<^verbatim>\<open>X\<close> (scenario 2).
\<close>

theorem hello_reply_witness:
  \<open>prefix ''system:'' ''system:0'' \<and> serverProtocol open_world = Some ''S'' \<and>
   ''c1'' \<in> set (connections open_world) \<and>
   effects (snd (handleSystemMessage demo_env (PStr ''system:0'') (PStr ''wslink.hello'')
                   [PDict [(''secret'', PStr ''S'')]] ''c1'' open_world)) =
     [SendStr ''c1'' ''{"wslink": "1.0", "id": "system:0", "result": {"clientID": "cc1"}}''] \<and>
   effects (snd (handleSystemMessage demo_env (PStr ''system:0'') (PStr ''wslink.hello'')
                   [PDict [(''secret'', PStr ''X'')]] ''c1'' open_world)) =
     [SendStr ''c1''
        ''{"wslink": "1.0", "id": "system:0", "error": {"code": 1, "message": "Authentication failed"}}'']\<close>
proof -
  have h1: "prefix ''system:'' ''system:0''" by simp
  have h2: "serverProtocol open_world = Some ''S''" by (simp add: demo_defs)
  have h3: "''c1'' \<noteq> []" by simp
  have h4: "''c1'' \<in> set (connections open_world)" by (simp add: demo_defs)
  have e: "effects open_world = []" "attachmentMap (publishManager open_world) = []"
    by (simp_all add: demo_defs)
  show ?thesis
    using hello_reply [OF h1 h2 h3 h4, of demo_env "[PDict [(''secret'', PStr ''S'')]]"]
      hello_reply [OF h1 h2 h3 h4, of demo_env "[PDict [(''secret'', PStr ''X'')]]"]
      h2 h4
    by (simp add: e presents_secret_def attachment_effects_def eval_defs demo_env_def)
qed

section \<open>Unknown methods\<close>

text \<open>
  C7 (as amended). Unknown-method requests get METHOD_NOT_FOUND error replies. A
  system-prefixed request whose method is not \<^verbatim>\<open>wslink.hello\<close> is answered with the
  message "Unknown system method called" and no \<^verbatim>\<open>data\<close> member. A non-system request
  whose method name is a string that is not in the Function Map is answered with the
  message "Unregistered method called"; the method name is echoed in \<^verbatim>\<open>data\<close> when it is
  not the empty string, and for the empty method name the reply has no \<^verbatim>\<open>data\<close> member.
\<close>

theorem unknown_method_replies:
  assumes "json_loads en payload = Some (PDict kvs)"
    and "map_of kvs ''wslink'' = Some ver"
    and "map_of kvs ''id'' = Some (PStr rid)"
    and "map_of kvs ''method'' = Some (PStr m)"
    and "client_id \<noteq> []" and "client_id \<in> set (connections w)"
  shows
    "(prefix ''system:'' rid \<and> m \<noteq> ''wslink.hello'' \<longrightarrow>
        onMessage en (Text payload) client_id w =
          (Inr (), w\<lparr>effects := effects w @
             [SendStr client_id
               (wire (PDict [(''wslink'', PStr ''1.0''), (''id'', PStr rid),
                  (''error'', PDict [(''code'', PInt (code_of en METHOD_NOT_FOUND)),
                                     (''message'', PStr ''Unknown system method called'')])]))]\<rparr>)) \<and>
     (\<not> (rid = ''system'' \<or> prefix ''system:'' rid) \<and> functionMap w m = None \<longrightarrow>
        onMessage en (Text payload) client_id w =
          (Inr (), w\<lparr>effects := effects w @
             [SendStr client_id
               (wire (PDict [(''wslink'', PStr ''1.0''), (''id'', PStr rid),
                  (''error'', PDict ([(''code'', PInt (code_of en METHOD_NOT_FOUND)),
                                      (''message'', PStr ''Unregistered method called'')] @
                                     (if m = [] then [] else [(''data'', PStr m)])))]))]\<rparr>))"
proof (intro conjI impI)
  assume a: "prefix ''system:'' rid \<and> m \<noteq> ''wslink.hello''"
  then have sys: "is_system_id rid" and ne: "PStr m \<noteq> PStr ''wslink.hello''"
    by (simp_all add: is_system_id_iff)
  show "onMessage en (Text payload) client_id w =
          (Inr (), w\<lparr>effects := effects w @
             [SendStr client_id
               (wire (PDict [(''wslink'', PStr ''1.0''), (''id'', PStr rid),
                  (''error'', PDict [(''code'', PInt (code_of en METHOD_NOT_FOUND)),
                                     (''message'', PStr ''Unknown system method called'')])]))]\<rparr>)"
    using onMessage_unknown_system [OF assms(1-4) sys ne assms(5,6)]
    by (simp add: error_wrapper_def error_object_def)
next
  assume b: "\<not> (rid = ''system'' \<or> prefix ''system:'' rid) \<and> functionMap w m = None"
  then have nsys: "\<not> is_system_id rid" and miss: "functionMap w m = None"
    by (simp_all add: is_system_id_iff)
  show "onMessage en (Text payload) client_id w =
          (Inr (), w\<lparr>effects := effects w @
             [SendStr client_id
               (wire (PDict [(''wslink'', PStr ''1.0''), (''id'', PStr rid),
                  (''error'', PDict ([(''code'', PInt (code_of en METHOD_NOT_FOUND)),
                                      (''message'', PStr ''Unregistered method called'')] @
                                     (if m = [] then [] else [(''data'', PStr m)])))]))]\<rparr>)"
    using onMessage_unregistered [OF assms(1-4) nsys miss assms(5,6)]
    by (simp add: error_wrapper_def error_object_def)
qed

text \<open>
  Scenario 3 of the spec (\<^verbatim>\<open>no.such.method\<close>, echoed in \<^verbatim>\<open>data\<close>), and an unknown system
  method.
\<close>

theorem unknown_method_replies_witness:
  \<open>onMessage demo_env (Text ''{"wslink": "1.0", "id": "system:1", "method": "wslink.bye"}'')
      ''c1'' open_world =
     (Inr (), open_world\<lparr>effects :=
        [SendStr ''c1''
          ''{"wslink": "1.0", "id": "system:1", "error": {"code": 2, "message": "Unknown system method called"}}'']\<rparr>) \<and>
   onMessage demo_env (Text ''{"wslink": "1.0", "id": "rpc:1", "method": "no.such.method"}'')
      ''c1'' open_world =
     (Inr (), open_world\<lparr>effects :=
        [SendStr ''c1''
          ''{"wslink": "1.0", "id": "rpc:1", "error": {"code": 2, "message": "Unregistered method called", "data": "no.such.method"}}'']\<rparr>)\<close>
proof -
  have c: "''c1'' \<noteq> []" "''c1'' \<in> set (connections open_world)"
    by (simp_all add: demo_defs)
  have l1: \<open>json_loads demo_env ''{"wslink": "1.0", "id": "system:1", "method": "wslink.bye"}'' =
      Some (PDict [(''wslink'', PStr ''1.0''), (''id'', PStr ''system:1''),
                   (''method'', PStr ''wslink.bye'')])\<close>
    by (simp add: demo_env_def demo_loads_def)
  have l2: \<open>json_loads demo_env ''{"wslink": "1.0", "id": "rpc:1", "method": "no.such.method"}'' =
      Some (PDict [(''wslink'', PStr ''1.0''), (''id'', PStr ''rpc:1''),
                   (''method'', PStr ''no.such.method'')])\<close>
    by (simp add: demo_env_def demo_loads_def)
  have e: "effects open_world = []" "functionMap open_world ''no.such.method'' = None"
    by (simp_all add: demo_defs)
  have k: "code_of demo_env METHOD_NOT_FOUND = 2" by (simp add: demo_env_def)
  show ?thesis
    using unknown_method_replies [OF l1 _ _ _ c, of "PStr ''1.0''" "''system:1''" "''wslink.bye''"]
      unknown_method_replies [OF l2 _ _ _ c, of "PStr ''1.0''" "''rpc:1''" "''no.such.method''"]
    by (simp add: e k eval_defs)
qed

text \<open>
  The claim as stated fails for the empty method name: the reply to
  \<^verbatim>\<open>{"wslink": "1.0", "id": "rpc:1", "method": ""}\<close> has no \<^verbatim>\<open>data\<close> member.
\<close>

theorem empty_method_not_echoed_counterexample:
  \<open>functionMap open_world [] = None \<and>
   onMessage demo_env (Text ''{"wslink": "1.0", "id": "rpc:1", "method": ""}'') ''c1'' open_world =
     (Inr (), open_world\<lparr>effects :=
        [SendStr ''c1''
          ''{"wslink": "1.0", "id": "rpc:1", "error": {"code": 2, "message": "Unregistered method called"}}'']\<rparr>)\<close>
proof -
  have c: "''c1'' \<noteq> []" "''c1'' \<in> set (connections open_world)"
    by (simp_all add: demo_defs)
  have l: \<open>json_loads demo_env ''{"wslink": "1.0", "id": "rpc:1", "method": ""}'' =
      Some (PDict [(''wslink'', PStr ''1.0''), (''id'', PStr ''rpc:1''), (''method'', PStr [])])\<close>
    by (simp add: demo_env_def demo_loads_def)
  have e: "effects open_world = []" "functionMap open_world [] = None"
    by (simp_all add: demo_defs)
  have k: "code_of demo_env METHOD_NOT_FOUND = 2" by (simp add: demo_env_def)
  have n: "\<not> is_system_id ''rpc:1''" by (simp add: is_system_id_iff)
  show ?thesis
    using onMessage_unregistered [OF l _ _ _ n e(2) c, of "PStr ''1.0''"]
    by (simp add: e k eval_defs error_wrapper_def error_object_def)
qed

section \<open>System messages and the Function Map\<close>

text \<open>
  C8 (as amended). A request carrying a string \<^verbatim>\<open>id\<close> is dispatched as a system message
  (handled by the system-message path instead of the Function Map lookup) if and only if
  the part of its \<^verbatim>\<open>id\<close> before the first colon is \<^verbatim>\<open>system\<close>, that is, the \<^verbatim>\<open>id\<close> is
  exactly \<^verbatim>\<open>system\<close> or begins with \<^verbatim>\<open>system:\<close>. In that case only the system path
  runs; otherwise the system path changes nothing and the Function Map path runs.
\<close>

theorem system_dispatch_iff:
  "((fst (handleSystemMessage en (PStr rid) methodName args client_id w) = Inr False) =
      (\<not> (rid = ''system'' \<or> prefix ''system:'' rid))) \<and>
   dispatch en (PStr rid) methodName args kwargs client_id w =
     (if rid = ''system'' \<or> prefix ''system:'' rid
      then bnd (handleSystemMessage en (PStr rid) methodName args client_id) (\<lambda>_. ret ()) w
      else call_rpc en (PStr rid) methodName args kwargs client_id w)"
  using handled_iff [of en rid methodName args client_id w]
    dispatch_system [of rid en methodName args kwargs client_id w]
    dispatch_other [of rid en methodName args kwargs client_id w]
  by (simp add: is_system_id_iff)

text \<open>
  The request \<^verbatim>\<open>{"wslink": "1.0", "id": "rpc:2", "method": "echo", "args": ["hi"]}\<close> goes
  to the Function Map and \<^verbatim>\<open>echo\<close> answers it.
\<close>

theorem system_dispatch_witness:
  \<open>\<not> (''rpc:2'' = ''system'' \<or> prefix ''system:'' ''rpc:2'') \<and>
   dispatch demo_env (PStr ''rpc:2'') (PStr ''echo'') [PStr ''hi''] [] ''c1'' open_world =
     (Inr (), open_world\<lparr>effects :=
        [SendStr ''c1'' ''{"wslink": "1.0", "id": "rpc:2", "result": "hi"}'']\<rparr>)\<close>
proof -
  have r: \<open>call_rpc demo_env (PStr ''rpc:2'') (PStr ''echo'') [PStr ''hi''] [] ''c1'' open_world =
     (Inr (), open_world\<lparr>effects :=
        [SendStr ''c1'' ''{"wslink": "1.0", "id": "rpc:2", "result": "hi"}'']\<rparr>)\<close>
    by (simp add: call_rpc_def lookup_method_def invoke_def find_attachments_def
          call_method_def echo_def sendWrappedMessage_def result_wrapper_def
          websockets_for_def getAttachmentMap_def is_placeholder_def
          json_str_def escape_char_def prog_defs demo_defs)
  show ?thesis
    using system_dispatch_iff [of demo_env "''rpc:2''" "PStr ''echo''" "[PStr ''hi'']" "''c1''"
        open_world "[]"] r
    by simp
qed

text \<open>
  The claim as stated fails for the \<^verbatim>\<open>id\<close> \<^verbatim>\<open>system\<close>, which does not begin with
  \<^verbatim>\<open>system:\<close>: the request
  \<^verbatim>\<open>{"wslink": "1.0", "id": "system", "method": "echo", "args": ["hi"]}\<close> names a registered
  method and is answered by the system path.
\<close>

theorem system_without_colon_counterexample:
  \<open>\<not> prefix ''system:'' ''system'' \<and>
   functionMap open_world ''echo'' = Some echo \<and>
   onMessage demo_env
     (Text ''{"wslink": "1.0", "id": "system", "method": "echo", "args": ["hi"]}'') ''c1''
     open_world =
     (Inr (), open_world\<lparr>effects :=
        [SendStr ''c1''
          ''{"wslink": "1.0", "id": "system", "error": {"code": 2, "message": "Unknown system method called"}}'']\<rparr>)\<close>
proof -
  have c: "''c1'' \<noteq> []" "''c1'' \<in> set (connections open_world)"
    by (simp_all add: demo_defs)
  have l: \<open>json_loads demo_env
        ''{"wslink": "1.0", "id": "system", "method": "echo", "args": ["hi"]}'' =
      Some (PDict [(''wslink'', PStr ''1.0''), (''id'', PStr ''system''),
                   (''method'', PStr ''echo''), (''args'', PList [PStr ''hi''])])\<close>
    by (simp add: demo_env_def demo_loads_def)
  have e: "effects open_world = []" "functionMap open_world ''echo'' = Some echo"
    by (simp_all add: demo_defs)
  have k: "code_of demo_env METHOD_NOT_FOUND = 2" by (simp add: demo_env_def)
  have s: "is_system_id ''system''" by (simp add: is_system_id_iff)
  show ?thesis
    using onMessage_unknown_system [OF l _ _ _ s _ c, of "PStr ''1.0''" "PStr ''echo''"]
    by (simp add: e k eval_defs error_wrapper_def error_object_def)
qed

section \<open>The data member of an error reply\<close>

text \<open>
  C10. An error reply includes the \<^verbatim>\<open>data\<close> member only when the data value supplied is
  truthy; whenever it is falsy (None, the empty string, zero, the empty list or mapping)
  the member is omitted. So the METHOD_NOT_FOUND reply for a request whose method name is
  the empty string carries no \<^verbatim>\<open>data\<close> member.
\<close>

theorem error_data_only_when_truthy:
  assumes "client_id \<noteq> []" and "client_id \<in> set (connections w)"
    and "json_dumps rpcid \<noteq> None" and "truthy data \<longrightarrow> json_dumps data \<noteq> None"
  shows
    "sendWrappedError rpcid code message data client_id w =
       (Inr (), w\<lparr>effects := effects w @
          [SendStr client_id
            (wire (PDict [(''wslink'', PStr ''1.0''), (''id'', rpcid),
               (''error'',
                PDict (if truthy data
                       then [(''code'', PInt code), (''message'', PStr message), (''data'', data)]
                       else [(''code'', PInt code), (''message'', PStr message)]))]))]\<rparr>) \<and>
     \<not> truthy PNone \<and> \<not> truthy (PStr []) \<and> \<not> truthy (PInt 0) \<and> \<not> truthy (PList []) \<and>
     \<not> truthy (PDict []) \<and>
     (json_loads en payload = Some (PDict kvs) \<and> map_of kvs ''wslink'' = Some ver \<and>
      map_of kvs ''id'' = Some rpcid \<and> rpcid = PStr rid \<and> map_of kvs ''method'' = Some (PStr []) \<and>
      \<not> (rid = ''system'' \<or> prefix ''system:'' rid) \<and> functionMap w [] = None \<longrightarrow>
      onMessage en (Text payload) client_id w =
        (Inr (), w\<lparr>effects := effects w @
           [SendStr client_id
             (wire (PDict [(''wslink'', PStr ''1.0''), (''id'', rpcid),
                (''error'', PDict [(''code'', PInt (code_of en METHOD_NOT_FOUND)),
                                   (''message'', PStr ''Unregistered method called'')])]))]\<rparr>))"
proof -
  have a: "sendWrappedError rpcid code message data client_id w =
       (Inr (), w\<lparr>effects := effects w @
          [SendStr client_id
            (wire (PDict [(''wslink'', PStr ''1.0''), (''id'', rpcid),
               (''error'',
                PDict (if truthy data
                       then [(''code'', PInt code), (''message'', PStr message), (''data'', data)]
                       else [(''code'', PInt code), (''message'', PStr message)]))]))]\<rparr>)"
    using error_reply [OF assms, of code message]
    by (simp add: error_wrapper_def error_object_def)
  have b: "onMessage en (Text payload) client_id w =
        (Inr (), w\<lparr>effects := effects w @
           [SendStr client_id
             (wire (PDict [(''wslink'', PStr ''1.0''), (''id'', rpcid),
                (''error'', PDict [(''code'', PInt (code_of en METHOD_NOT_FOUND)),
                                   (''message'', PStr ''Unregistered method called'')])]))]\<rparr>)"
    if h: "json_loads en payload = Some (PDict kvs)" "map_of kvs ''wslink'' = Some ver"
      "map_of kvs ''id'' = Some rpcid" "rpcid = PStr rid" "map_of kvs ''method'' = Some (PStr [])"
      "\<not> (rid = ''system'' \<or> prefix ''system:'' rid)" "functionMap w [] = None"
  proof -
    have i: "map_of kvs ''id'' = Some (PStr rid)" using h(3,4) by simp
    have n: "\<not> is_system_id rid" using h(6) by (simp add: is_system_id_iff)
    show ?thesis
      using onMessage_unregistered [OF h(1,2) i h(5) n h(7) assms(1,2), of ] h(4)
      by (simp add: error_wrapper_def error_object_def)
  qed
  show ?thesis
    using a b by simp
qed

text \<open>
  A reply built with the empty string as data, and the reply to
  \<^verbatim>\<open>{"wslink": "1.0", "id": "rpc:1", "method": ""}\<close>: neither has a \<^verbatim>\<open>data\<close> member; a
  reply built with the data \<^verbatim>\<open>"m"\<close> has one.
\<close>

theorem error_data_witness:
  \<open>sendWrappedError (PStr ''rpc:1'') 2 ''Unregistered method called'' (PStr []) ''c1'' open_world =
     (Inr (), open_world\<lparr>effects :=
        [SendStr ''c1''
          ''{"wslink": "1.0", "id": "rpc:1", "error": {"code": 2, "message": "Unregistered method called"}}'']\<rparr>) \<and>
   sendWrappedError (PStr ''rpc:1'') 2 ''Unregistered method called'' (PStr ''m'') ''c1'' open_world =
     (Inr (), open_world\<lparr>effects :=
        [SendStr ''c1''
          ''{"wslink": "1.0", "id": "rpc:1", "error": {"code": 2, "message": "Unregistered method called", "data": "m"}}'']\<rparr>) \<and>
   onMessage demo_env (Text ''{"wslink": "1.0", "id": "rpc:1", "method": ""}'') ''c1'' open_world =
     (Inr (), open_world\<lparr>effects :=
        [SendStr ''c1''
          ''{"wslink": "1.0", "id": "rpc:1", "error": {"code": 2, "message": "Unregistered method called"}}'']\<rparr>)\<close>
proof -
  have c: "''c1'' \<noteq> []" "''c1'' \<in> set (connections open_world)"
    by (simp_all add: demo_defs)
  have s: "json_dumps (PStr ''rpc:1'') \<noteq> None" by simp
  have d1: "truthy (PStr []) \<longrightarrow> json_dumps (PStr []) \<noteq> None" by simp
  have d2: "truthy (PStr ''m'') \<longrightarrow> json_dumps (PStr ''m'') \<noteq> None" by simp
  have l: \<open>json_loads demo_env ''{"wslink": "1.0", "id": "rpc:1", "method": ""}'' =
      Some (PDict [(''wslink'', PStr ''1.0''), (''id'', PStr ''rpc:1''), (''method'', PStr [])])\<close>
    by (simp add: demo_env_def demo_loads_def)
  have e: "effects open_world = []" "functionMap open_world [] = None"
    by (simp_all add: demo_defs)
  have k: "code_of demo_env METHOD_NOT_FOUND = 2" by (simp add: demo_env_def)
  show ?thesis
    using error_data_only_when_truthy [OF c s d1, of 2 "''Unregistered method called''" demo_env
        \<open>''{"wslink": "1.0", "id": "rpc:1", "method": ""}''\<close>
        "[(''wslink'', PStr ''1.0''), (''id'', PStr ''rpc:1''), (''method'', PStr [])]"
        "PStr ''1.0''" "''rpc:1''"]
      error_data_only_when_truthy [OF c s d2, of 2 "''Unregistered method called''" demo_env
        "[]" "[]" PNone "[]"]
    by (simp add: l e k eval_defs)
qed

section \<open>Attachments of a reply\<close>

text \<open>
  C2 (as amended). When a reply is sent to its client, \<^verbatim>\<open>sendWrappedMessage\<close> visits the
  keys of the publish attachment map in the map's own order; for each key that occurs in
  the serialized JSON text it increments the key's reference count, sends an attachment
  header naming that single key immediately followed by the binary frame with the key's
  blob, and decrements the count, so that the count is positive while the pair is sent
  (counts are never negative before the call). After all pairs, if the attachment map is
  not empty, it calls \<^verbatim>\<open>freeAttachments\<close> on the keys found, and only then sends the JSON
  message: \<^verbatim>\<open>freeAttachments\<close> comes before the JSON message, not after it.
\<close>

theorem reply_attachment_order:
  assumes "client_id \<noteq> []" and "client_id \<in> set (connections w)"
    and "json_dumps (result_wrapper rpcid content) = Some encMsg"
    and "distinct (map fst (attachmentMap (publishManager w)))"
    and "\<forall>key. 0 \<le> attachmentRefCounts (publishManager w) key"
    and "found = found_items encMsg (attachmentMap (publishManager w))"
    and "sent = concat (map (attachment_frames client_id) found) @
                (if attachmentMap (publishManager w) = [] then []
                 else [FreeAttachments (map fst found)]) @
                [SendStr client_id encMsg]"
  shows "fst (sendWrappedMessage en rpcid content method client_id w) = Inr () \<and>
     effects (snd (sendWrappedMessage en rpcid content method client_id w)) = effects w @ sent \<and>
     publishManager (snd (sendWrappedMessage en rpcid content method client_id w)) =
       replay sent (publishManager w) \<and>
     (\<forall>i < length found.
        0 < attachmentRefCounts
              (replay (concat (map (attachment_frames client_id) (take i found)) @
                       [RegisterAttachment (fst (found ! i))])
                 (publishManager w))
              (fst (found ! i)))"
proof -
  have keys: "found_keys encMsg (attachmentMap (publishManager w)) = map fst found"
    using assms(4,6) by (simp add: found_keys_distinct)
  have run: "sendWrappedMessage en rpcid content method client_id w =
     (Inr (),
      w\<lparr>publishManager :=
          (if attachmentMap (publishManager w) = [] then publishManager w
           else freeAttachments (map fst found) (publishManager w)),
        effects := effects w @ sent\<rparr>)"
    using sendWrappedMessage_run [OF assms(1-3), of en "method"] keys assms(6,7)
    by (simp add: attachment_effects_def found_items_def)
  have rep: "replay sent (publishManager w) =
     (if attachmentMap (publishManager w) = [] then publishManager w
      else freeAttachments (map fst found) (publishManager w))"
    unfolding assms(7) replay_append replay_all_frames
    by (simp add: replay_def)
  have pos: "0 < attachmentRefCounts
              (replay (concat (map (attachment_frames client_id) (take i found)) @
                       [RegisterAttachment (fst (found ! i))])
                 (publishManager w))
              (fst (found ! i))" for i
    using assms(5) [rule_format, of "fst (found ! i)"]
    unfolding replay_append replay_all_frames replay_register by simp
  show ?thesis
    using run rep pos by simp
qed

text \<open>
  A reply whose result is the placeholder \<^verbatim>\<open>wslink_bin1\<close>, with the blobs
  \<^verbatim>\<open>wslink_bin0\<close> and \<^verbatim>\<open>wslink_bin1\<close> in the publish attachment map.
\<close>

theorem reply_attachment_order_witness:
  \<open>''c1'' \<in> set (connections blob_world) \<and>
   distinct (map fst (attachmentMap (publishManager blob_world))) \<and>
   found_items ''{"wslink": "1.0", "id": "rpc:2", "result": "wslink_bin1"}''
     (attachmentMap (publishManager blob_world)) = [(''wslink_bin1'', [1])] \<and>
   effects (snd (sendWrappedMessage demo_env (PStr ''rpc:2'') (PStr ''wslink_bin1'')
                   (PStr ''echo'') ''c1'' blob_world)) =
     [RegisterAttachment ''wslink_bin1'',
      SendStr ''c1''
        ''{"wslink": "1.0", "method": "wslink.binary.attachment", "args": ["wslink_bin1"]}'',
      SendBytes ''c1'' [1],
      UnregisterAttachment ''wslink_bin1'',
      FreeAttachments [''wslink_bin1''],
      SendStr ''c1'' ''{"wslink": "1.0", "id": "rpc:2", "result": "wslink_bin1"}''] \<and>
   0 < attachmentRefCounts
         (replay [RegisterAttachment ''wslink_bin1''] (publishManager blob_world))
         ''wslink_bin1''\<close>
proof -
  have c: "''c1'' \<noteq> []" "''c1'' \<in> set (connections blob_world)"
    by (simp_all add: blob_world_def demo_defs)
  have s: \<open>json_dumps (result_wrapper (PStr ''rpc:2'') (PStr ''wslink_bin1'')) =
      Some ''{"wslink": "1.0", "id": "rpc:2", "result": "wslink_bin1"}''\<close>
    by (simp add: result_wrapper_def json_str_def escape_char_def)
  have d: "distinct (map fst (attachmentMap (publishManager blob_world)))"
    by (simp add: blob_world_def)
  have n: "\<forall>key. 0 \<le> attachmentRefCounts (publishManager blob_world) key"
    by (simp add: blob_world_def)
  have f: \<open>found_items ''{"wslink": "1.0", "id": "rpc:2", "result": "wslink_bin1"}''
     (attachmentMap (publishManager blob_world)) = [(''wslink_bin1'', [1])]\<close>
    by (simp add: found_items_def blob_world_def)
  have e: "effects blob_world = []" "attachmentMap (publishManager blob_world) \<noteq> []"
    by (simp_all add: blob_world_def demo_defs)
  show ?thesis
    using reply_attachment_order [OF c s d n f [symmetric] refl, of demo_env "PStr ''echo''"]
      c(2) d f
    by (simp add: e attachment_frames_def eval_defs attachment_header_def)
qed

text \<open>
  The claim as stated fails on the order: with the result
  \<^verbatim>\<open>["wslink_bin1", "wslink_bin0"]\<close> the pairs are sent in the order of the attachment map
  (\<^verbatim>\<open>wslink_bin0\<close> first, although \<^verbatim>\<open>wslink_bin1\<close> appears first in the text), and
  \<^verbatim>\<open>freeAttachments\<close> is called before the JSON message is sent, so that both blobs have
  left the attachment map when the message goes out.
\<close>

theorem free_before_reply_counterexample:
  \<open>effects (snd (sendWrappedMessage demo_env (PStr ''rpc:2'')
                   (PList [PStr ''wslink_bin1'', PStr ''wslink_bin0'']) (PStr ''echo'') ''c1''
                   blob_world)) =
     [RegisterAttachment ''wslink_bin0'',
      SendStr ''c1''
        ''{"wslink": "1.0", "method": "wslink.binary.attachment", "args": ["wslink_bin0"]}'',
      SendBytes ''c1'' [0],
      UnregisterAttachment ''wslink_bin0'',
      RegisterAttachment ''wslink_bin1'',
      SendStr ''c1''
        ''{"wslink": "1.0", "method": "wslink.binary.attachment", "args": ["wslink_bin1"]}'',
      SendBytes ''c1'' [1],
      UnregisterAttachment ''wslink_bin1'',
      FreeAttachments [''wslink_bin0'', ''wslink_bin1''],
      SendStr ''c1'' ''{"wslink": "1.0", "id": "rpc:2", "result": ["wslink_bin1", "wslink_bin0"]}''] \<and>
   attachmentMap (publishManager (snd (sendWrappedMessage demo_env (PStr ''rpc:2'')
                   (PList [PStr ''wslink_bin1'', PStr ''wslink_bin0'']) (PStr ''echo'') ''c1''
                   blob_world))) = []\<close>
  by (simp add: send_defs json_str_def escape_char_def prog_defs blob_world_def demo_defs)

section \<open>Malformed JSON\<close>




section \<open>The idle shutdown timer\<close>

text \<open>
  C9. The idle-shutdown timer is cancelled and re-armed around connections. On every
  client connect a pending shutdown task is cancelled and its slot cleared, and the session
  (read loop and close handling) proceeds from that state. On every disconnect that leaves
  the connection table empty a new shutdown task is scheduled with the configured timeout
  and stored in the slot; a disconnect that leaves other clients schedules nothing. When a
  pending task fires it closes every open connection with the close code GOING_AWAY (1001),
  cleans the runner up and resolves the running future, on which \<^verbatim>\<open>start\<close> waits; a
  cancelled task does nothing.
\<close>

theorem idle_shutdown_timer:
  "fst (ws_connect client_id w) = Inr () \<and>
   shutdown_task (snd (ws_connect client_id w)) = None \<and>
   client_id \<in> set (connections (snd (ws_connect client_id w))) \<and>
   (shutdown_task w = Some t \<longrightarrow>
      t \<notin> set (pending_tasks (snd (ws_connect client_id w))) \<and>
      effects (snd (ws_connect client_id w)) = effects w @ [CancelTask t]) \<and>
   (shutdown_task w = None \<longrightarrow> effects (snd (ws_connect client_id w)) = effects w) \<and>
   handleWsRequest en client_id msgs w =
     bnd (for_each msgs (\<lambda>msg. onMessage en msg client_id)) (\<lambda>_. ws_disconnect en client_id)
       (snd (ws_connect client_id w)) \<and>
   (client_id \<in> set (connections w) \<and> removeAll client_id (connections w) = [] \<longrightarrow>
      ws_disconnect en client_id w =
        (Inr (),
         w\<lparr>connections := [],
           shutdown_task := Some (next_task w),
           pending_tasks := pending_tasks w @ [next_task w],
           next_task := Suc (next_task w),
           effects := effects w @ [ScheduleTask (next_task w) (timeout en)]\<rparr>)) \<and>
   (client_id \<in> set (connections w) \<and> removeAll client_id (connections w) \<noteq> [] \<longrightarrow>
      ws_disconnect en client_id w =
        (Inr (), w\<lparr>connections := removeAll client_id (connections w)\<rparr>)) \<and>
   (t \<in> set (pending_tasks w) \<longrightarrow>
      running (snd (fire_task t w)) \<and>
      t \<notin> set (pending_tasks (snd (fire_task t w))) \<and>
      effects (snd (fire_task t w)) =
        effects w @ map (\<lambda>c. CloseWs c 1001 ''Server shutdown'') (connections w) @
        [RunnerCleanup] @ (if running w then [] else [SetRunningResult])) \<and>
   (t \<notin> set (pending_tasks w) \<longrightarrow> fire_task t w = (Inr (), w))"
proof -
  have conn: "fst (ws_connect client_id w) = Inr () \<and>
     shutdown_task (snd (ws_connect client_id w)) = None \<and>
     client_id \<in> set (connections (snd (ws_connect client_id w))) \<and>
     (shutdown_task w = Some t \<longrightarrow>
        t \<notin> set (pending_tasks (snd (ws_connect client_id w))) \<and>
        effects (snd (ws_connect client_id w)) = effects w @ [CancelTask t]) \<and>
     (shutdown_task w = None \<longrightarrow> effects (snd (ws_connect client_id w)) = effects w)"
    by (simp add: ws_connect_run split: option.splits)
  have sess: "handleWsRequest en client_id msgs w =
     bnd (for_each msgs (\<lambda>msg. onMessage en msg client_id)) (\<lambda>_. ws_disconnect en client_id)
       (snd (ws_connect client_id w))"
    by (simp add: handleWsRequest_def ws_connect_run bnd_def [of "ws_connect client_id"])
  have fire: "t \<in> set (pending_tasks w) \<longrightarrow>
      running (snd (fire_task t w)) \<and>
      t \<notin> set (pending_tasks (snd (fire_task t w))) \<and>
      effects (snd (fire_task t w)) =
        effects w @ map (\<lambda>c. CloseWs c 1001 ''Server shutdown'') (connections w) @
        [RunnerCleanup] @ (if running w then [] else [SetRunningResult])"
    by (simp add: fire_task_def stop_server_run)
  have idle: "t \<notin> set (pending_tasks w) \<longrightarrow> fire_task t w = (Inr (), w)"
    by (simp add: fire_task_def)
  show ?thesis
    using conn sess fire idle ws_disconnect_last [of client_id w en]
      ws_disconnect_others [of client_id w en]
    by blast
qed

text \<open>
  Scenarios 5 and 6 of the spec with the timeout 5. After startup the task 0 is pending:
  if it fires, the server stops. If the client \<^verbatim>\<open>c1\<close> connects first, the task is
  cancelled and does nothing when its time comes; when \<^verbatim>\<open>c1\<close> disconnects, the task 1 is
  scheduled, and firing it stops the server.
\<close>

theorem idle_shutdown_timer_witness:
  "shutdown_task idle_world = Some 0 \<and> 0 \<in> set (pending_tasks idle_world) \<and>
   snd (fire_task 0 idle_world) =
     idle_world\<lparr>pending_tasks := [], running := True,
                 effects := [RunnerCleanup, SetRunningResult]\<rparr> \<and>
   ws_connect ''c1'' idle_world = (Inr (), open_world\<lparr>effects := [CancelTask 0]\<rparr>) \<and>
   fire_task 0 (open_world\<lparr>effects := [CancelTask 0]\<rparr>) =
     (Inr (), open_world\<lparr>effects := [CancelTask 0]\<rparr>) \<and>
   ws_disconnect demo_env ''c1'' (open_world\<lparr>effects := [CancelTask 0]\<rparr>) =
     (Inr (), idle_world\<lparr>shutdown_task := Some 1, pending_tasks := [1], next_task := 2,
                          effects := [CancelTask 0, ScheduleTask 1 5]\<rparr>) \<and>
   effects (snd (fire_task 0 (open_world\<lparr>pending_tasks := [0]\<rparr>))) =
     [CloseWs ''c1'' 1001 ''Server shutdown'', RunnerCleanup, SetRunningResult]"
proof -
  have a: "shutdown_task idle_world = Some 0" "0 \<in> set (pending_tasks idle_world)"
    by (simp_all add: demo_defs)
  have b: "''c1'' \<in> set (connections (open_world\<lparr>effects := [CancelTask 0]\<rparr>)) \<and>
      removeAll ''c1'' (connections (open_world\<lparr>effects := [CancelTask 0]\<rparr>)) = []"
      "0 \<notin> set (pending_tasks (open_world\<lparr>effects := [CancelTask 0]\<rparr>))"
    by (simp_all add: demo_defs)
  have c: "0 \<in> set (pending_tasks (open_world\<lparr>pending_tasks := [0]\<rparr>))"
    by simp
  have w: "ws_connect ''c1'' idle_world = (Inr (), open_world\<lparr>effects := [CancelTask 0]\<rparr>)"
    by (simp add: ws_connect_run demo_defs)
  have f: "snd (fire_task 0 idle_world) =
     idle_world\<lparr>pending_tasks := [], running := True,
                 effects := [RunnerCleanup, SetRunningResult]\<rparr>"
    by (simp add: fire_task_def stop_server_run demo_defs)
  show ?thesis
    using idle_shutdown_timer [of "''c1''" idle_world 0 demo_env "[]"]
      idle_shutdown_timer [of "''c1''" "open_world\<lparr>effects := [CancelTask 0]\<rparr>" 0 demo_env "[]"]
      idle_shutdown_timer [of "''c1''" "open_world\<lparr>pending_tasks := [0]\<rparr>" 0 demo_env "[]"]
      a b c w f
    by (simp add: demo_defs)
qed

section \<open>Substituting received attachments\<close>




section \<open>Requests that are not validated\<close>

text \<open>
  C1. The claim is that every inbound JSON request carrying an \<^verbatim>\<open>id\<close> gets exactly one
  reply. The request \<^verbatim>\<open>{"id": "rpc:1", "method": "echo"}\<close> carries an \<^verbatim>\<open>id\<close> and names a
  registered method, but has no \<^verbatim>\<open>wslink\<close> member: \<^verbatim>\<open>onMessage\<close> reads \<^verbatim>\<open>rpc["wslink"]\<close>
  under the comment \<^verbatim>\<open>TODO validate\<close>, the KeyError leaves \<^verbatim>\<open>onMessage\<close>, and no reply is
  sent. The same request with the member is answered once.
\<close>

theorem request_without_version_gets_no_reply:
  \<open>onMessage demo_env (Text ''{"id": "rpc:1", "method": "echo"}'') ''c1'' open_world =
     (Inl KeyError, open_world) \<and>
   effects open_world = [] \<and>
   onMessage demo_env
     (Text ''{"wslink": "1.0", "id": "rpc:2", "method": "echo", "args": ["hi"]}'') ''c1'' open_world =
     (Inr (), open_world\<lparr>effects :=
        [SendStr ''c1'' ''{"wslink": "1.0", "id": "rpc:2", "result": "hi"}'']\<rparr>)\<close>
  by (simp add: run_defs send_defs echo_def json_str_def escape_char_def prog_defs demo_defs)

end
